theory Spec2Isabelle
  imports Main
begin

section \<open>Python string primitives\<close>

text \<open>
  A Python \<open>str\<close> is modelled as a \<open>string\<close> whose characters are the code points
  0..255. The predicates below are Python's \<open>str.isspace\<close> and \<open>str.isdigit\<close> on that
  range: besides the ASCII ones, U+0085 and U+00A0 are whitespace, and the superscripts
  U+00B2, U+00B3 and U+00B9 are digits.
\<close>

definition isspace :: "char \<Rightarrow> bool" where
  "isspace c = (let n = (of_char c :: nat) in
     (9 \<le> n \<and> n \<le> 13) \<or> (28 \<le> n \<and> n \<le> 32) \<or> n = 133 \<or> n = 160)"

definition isdigit :: "char \<Rightarrow> bool" where
  "isdigit c = (let n = (of_char c :: nat) in
     (48 \<le> n \<and> n \<le> 57) \<or> n = 178 \<or> n = 179 \<or> n = 185)"

text \<open>\<open>s.strip()\<close>: leading and trailing whitespace removed.\<close>

definition strip :: "string \<Rightarrow> string" where
  "strip s = rev (dropWhile isspace (rev (dropWhile isspace s)))"

text \<open>\<open>s.split(sep)\<close> for a one-character separator: never an empty list.\<close>

fun split_sep :: "char \<Rightarrow> string \<Rightarrow> string list" where
  "split_sep sep [] = [[]]"
| "split_sep sep (c # cs) =
     (if c = sep then [] # split_sep sep cs
      else (case split_sep sep cs of
              [] \<Rightarrow> [[c]]
            | w # ws \<Rightarrow> (c # w) # ws))"

text \<open>\<open>s.split(sep, 1)\<close>: at most one split, at the first occurrence of the separator.\<close>

definition split1 :: "char \<Rightarrow> string \<Rightarrow> string list" where
  "split1 sep s =
     (case dropWhile (\<lambda>c. c \<noteq> sep) s of
        [] \<Rightarrow> [s]
      | _ # rest \<Rightarrow> [takeWhile (\<lambda>c. c \<noteq> sep) s, rest])"

text \<open>
  \<open>s.split()\<close>: the maximal runs of non-whitespace characters, in order. The first
  argument is the token being read.
\<close>

fun split_ws_aux :: "string \<Rightarrow> string \<Rightarrow> string list" where
  "split_ws_aux w [] = (if w = [] then [] else [w])"
| "split_ws_aux w (c # cs) =
     (if isspace c
      then (if w = [] then split_ws_aux [] cs else w # split_ws_aux [] cs)
      else split_ws_aux (w @ [c]) cs)"

definition split_ws :: "string \<Rightarrow> string list" where
  "split_ws s = split_ws_aux [] s"

text \<open>\<open>sep.join(xs)\<close>.\<close>

fun join :: "string \<Rightarrow> string list \<Rightarrow> string" where
  "join sep [] = []"
| "join sep [x] = x"
| "join sep (x # y # ys) = x @ sep @ join sep (y # ys)"

text \<open>\<open>str(n)\<close> for a natural number: its decimal digits.\<close>

definition digit_char :: "nat \<Rightarrow> char" where
  "digit_char d = char_of (48 + d)"

fun str_nat :: "nat \<Rightarrow> string" where
  "str_nat n = (if n < 10 then [digit_char n] else str_nat (n div 10) @ [digit_char (n mod 10)])"

declare str_nat.simps [simp del]

text \<open>\<open>enumerate(xs)\<close>, counting from \<open>i\<close>.\<close>

fun enumerate_from :: "nat \<Rightarrow> 'a list \<Rightarrow> (nat \<times> 'a) list" where
  "enumerate_from i [] = []"
| "enumerate_from i (x # xs) = (i, x) # enumerate_from (Suc i) xs"

text \<open>The truth value Python gives an optional string: \<open>None\<close> and \<open>""\<close> are false.\<close>

fun truthy :: "string option \<Rightarrow> bool" where
  "truthy None = False"
| "truthy (Some s) = (s \<noteq> [])"

section \<open>The workflow state and its patches\<close>

text \<open>
  Modelled from the spec: \<open>BlogState\<close> (blog\_agent/models/state.py is not among the
  sources). Section 3 of the spec gives its fields; an optional text is an \<open>option\<close>,
  \<open>None\<close> standing for Python's \<open>None\<close> and for a missing key alike
  (\<open>state.get(key)\<close> reads both as \<open>None\<close>). The other fields are always present, so
  the default of \<open>state.get("style", "professional")\<close> is never used. The initial states
  built in the sources carry one more key, \<open>generation_time\<close>, a wall-clock float that
  no step reads or writes; it is left out.
\<close>

record BlogState =
  topic :: string
  transcript :: "string option"
  target_language :: "string option"
  style :: string
  brainstormed_titles :: "string list"
  selected_title :: string
  blog_content :: string
  translated_content :: "string option"
  final_content :: string
  word_count :: int

text \<open>
  A step returns a dictionary holding the keys it overwrites: a list of field updates.
\<close>

datatype field_update =
    Brainstormed_titles "string list"
  | Selected_title string
  | Blog_content string
  | Word_count int
  | Translated_content "string option"
  | Final_content string

type_synonym patch = "field_update list"

fun apply_update :: "BlogState \<Rightarrow> field_update \<Rightarrow> BlogState" where
  "apply_update st (Brainstormed_titles v) = st\<lparr>brainstormed_titles := v\<rparr>"
| "apply_update st (Selected_title v) = st\<lparr>selected_title := v\<rparr>"
| "apply_update st (Blog_content v) = st\<lparr>blog_content := v\<rparr>"
| "apply_update st (Word_count v) = st\<lparr>word_count := v\<rparr>"
| "apply_update st (Translated_content v) = st\<lparr>translated_content := v\<rparr>"
| "apply_update st (Final_content v) = st\<lparr>final_content := v\<rparr>"

text \<open>
  Modelled from the spec: the merge of a patch into the state is a shallow field
  overwrite (section 4.5); the state schema that would declare any other reducer is in
  the missing blog\_agent/models/state.py.
\<close>

definition merge :: "BlogState \<Rightarrow> patch \<Rightarrow> BlogState" where
  "merge st p = foldl apply_update st p"

section \<open>The router (graph/router.py)\<close>

definition should_translate :: "BlogState \<Rightarrow> string" where
  "should_translate state =
     (let target_language = target_language state in
      if truthy target_language \<and> truthy (map_option strip target_language)
      then ''translate''
      else ''end'')"

section \<open>The prompt templates (prompts/)\<close>

text \<open>
  Each template is the source's string; a template with placeholders is the function
  that \<open>str.format\<close> computes from the named arguments.
\<close>

definition TITLE_SYSTEM_PROMPT :: "string" where
  "TITLE_SYSTEM_PROMPT =
     ''You are an expert blog title writer with years of experience in SEO and content marketing.\<newline>'' @
     ''\<newline>'' @
     ''Your titles are:\<newline>'' @
     ''- Attention-grabbing (make people WANT to click)\<newline>'' @
     ''- SEO-friendly (include relevant keywords naturally)\<newline>'' @
     ''- Clear and specific (reader knows what they'll learn)\<newline>'' @
     ''- Appropriately formatted (use numbers, power words)\<newline>'' @
     ''\<newline>'' @
     ''You understand different writing styles:\<newline>'' @
     ''- Professional: Industry terms, authoritative tone\<newline>'' @
     ''- Casual: Friendly, conversational, relatable\<newline>'' @
     ''- Technical: Precise, detailed, jargon-appropriate\<newline>'' @
     ''- Storytelling: Narrative hooks, curiosity-building''"

definition TITLE_GENERATION_PROMPT :: "string \<Rightarrow> string \<Rightarrow> string \<Rightarrow> string" where
  "TITLE_GENERATION_PROMPT = (\<lambda>topic transcript_section style.
     ''Generate 5 creative and engaging blog post titles for the following topic.\<newline>'' @
     ''\<newline>'' @
     ''TOPIC: '' @
     topic @
     ''\<newline>'' @
     ''\<newline>'' @
     transcript_section @
     ''\<newline>'' @
     ''\<newline>'' @
     ''WRITING STYLE: '' @
     style @
     ''\<newline>'' @
     ''\<newline>'' @
     ''REQUIREMENTS:\<newline>'' @
     ''1. Generate exactly 5 title options\<newline>'' @
     ''2. Each title should be unique in approach\<newline>'' @
     ''3. Use proven title formats (how-to, listicles, questions, etc.)\<newline>'' @
     ''4. Keep titles under 60 characters for SEO\<newline>'' @
     ''5. Include power words that trigger emotion\<newline>'' @
     ''\<newline>'' @
     ''TITLE TYPES TO INCLUDE:\<newline>'' @
     ''- One \"How to...\" title\<newline>'' @
     ''- One numbered list title (e.g., \"10 Ways to...\")\<newline>'' @
     ''- One question-based title\<newline>'' @
     ''- One benefit-focused title\<newline>'' @
     ''- One creative/unique title\<newline>'' @
     ''\<newline>'' @
     ''OUTPUT FORMAT:\<newline>'' @
     ''Return ONLY the 5 titles, one per line, numbered 1-5.\<newline>'' @
     ''Do not include any explanation or additional text.\<newline>'' @
     ''\<newline>'' @
     ''Example output:\<newline>'' @
     ''1. How to Master Remote Work in 30 Days\<newline>'' @
     ''2. 7 Secrets Top Remote Workers Never Share\<newline>'' @
     ''3. Why Are Remote Workers 40% More Productive?\<newline>'' @
     ''4. The Ultimate Guide to Work-From-Home Success\<newline>'' @
     ''5. Remote Work Revolution: Transform Your Career Today\<newline>'')"

definition TITLE_SELECTION_PROMPT :: "string \<Rightarrow> string \<Rightarrow> string \<Rightarrow> string" where
  "TITLE_SELECTION_PROMPT = (\<lambda>titles topic style.
     ''From the following title options, select the BEST one for SEO and engagement.\<newline>'' @
     ''\<newline>'' @
     ''TITLES:\<newline>'' @
     titles @
     ''\<newline>'' @
     ''\<newline>'' @
     ''TOPIC: '' @
     topic @
     ''\<newline>'' @
     ''STYLE: '' @
     style @
     ''\<newline>'' @
     ''\<newline>'' @
     ''Consider:\<newline>'' @
     ''1. SEO value (keywords, length, searchability)\<newline>'' @
     ''2. Click-through potential (would YOU click this?)\<newline>'' @
     ''3. Accuracy (does it promise something the content can deliver?)\<newline>'' @
     ''4. Style match (does it fit the requested writing style?)\<newline>'' @
     ''\<newline>'' @
     ''OUTPUT FORMAT:\<newline>'' @
     ''Return ONLY the single best title, nothing else.\<newline>'')"

definition CONTENT_SYSTEM_PROMPT :: "string" where
  "CONTENT_SYSTEM_PROMPT =
     ''You are a professional blog writer with expertise in creating engaging, informative content.\<newline>'' @
     ''\<newline>'' @
     ''Your writing style is:\<newline>'' @
     ''- Clear and easy to read\<newline>'' @
     ''- Well-structured with logical flow\<newline>'' @
     ''- Rich with examples and practical advice\<newline>'' @
     ''- Properly formatted for online reading\<newline>'' @
     ''- SEO-conscious without being spammy\<newline>'' @
     ''\<newline>'' @
     ''You write in Markdown format with:\<newline>'' @
     ''- Proper heading hierarchy (##, ###)\<newline>'' @
     ''- Bullet points for lists\<newline>'' @
     ''- Bold text for emphasis\<newline>'' @
     ''- Short paragraphs (2-3 sentences max)''"

definition CONTENT_GENERATION_PROMPT :: "string \<Rightarrow> string \<Rightarrow> string \<Rightarrow> string \<Rightarrow> string" where
  "CONTENT_GENERATION_PROMPT = (\<lambda>title topic style transcript_section.
     ''Write a comprehensive blog post with the following specifications:\<newline>'' @
     ''\<newline>'' @
     ''TITLE: '' @
     title @
     ''\<newline>'' @
     ''TOPIC: '' @
     topic @
     ''\<newline>'' @
     ''WRITING STYLE: '' @
     style @
     ''\<newline>'' @
     ''\<newline>'' @
     transcript_section @
     ''\<newline>'' @
     ''\<newline>'' @
     ''REQUIREMENTS:\<newline>'' @
     ''1. Length: 800-1200 words\<newline>'' @
     ''2. Format: Markdown\<newline>'' @
     ''3. Structure:\<newline>'' @
     ''   - Engaging introduction (2-3 sentences with a hook)\<newline>'' @
     ''   - Clear subheadings (use ## for main sections)\<newline>'' @
     ''   - Practical examples or tips\<newline>'' @
     ''   - Conclusion with a call-to-action\<newline>'' @
     ''\<newline>'' @
     ''4. Style Guidelines based on \"'' @
     style @
     ''\":\<newline>'' @
     ''   - Professional: Industry terms, data-backed claims, authoritative\<newline>'' @
     ''   - Casual: Conversational, use \"you\", relatable examples\<newline>'' @
     ''   - Technical: Precise terminology, code examples if relevant\<newline>'' @
     ''   - Storytelling: Narrative arc, personal anecdotes, emotional hooks\<newline>'' @
     ''\<newline>'' @
     ''5. SEO Best Practices:\<newline>'' @
     ''   - Use the main keyword in first paragraph\<newline>'' @
     ''   - Include 2-3 subheadings with related keywords\<newline>'' @
     ''   - Write meta-description-worthy first sentences\<newline>'' @
     ''\<newline>'' @
     ''IMPORTANT:\<newline>'' @
     ''- Do NOT include the title as an H1 (just start with introduction)\<newline>'' @
     ''- Do NOT include \"Introduction\" or \"Conclusion\" as headings\<newline>'' @
     ''- Make content genuinely useful, not filler\<newline>'' @
     ''\<newline>'' @
     ''OUTPUT: Return ONLY the blog content in Markdown format.\<newline>'')"

definition CONTENT_WITH_TRANSCRIPT_SECTION :: "string \<Rightarrow> string" where
  "CONTENT_WITH_TRANSCRIPT_SECTION = (\<lambda>transcript.
     ''\<newline>'' @
     ''TRANSCRIPT TO REFERENCE:\<newline>'' @
     ''The following is a transcript from a video/podcast. Use this as source material,\<newline>'' @
     ''but DO NOT plagiarize. Synthesize the ideas in your own words.\<newline>'' @
     ''\<newline>'' @
     ''---\<newline>'' @
     transcript @
     ''\<newline>'' @
     ''---\<newline>'' @
     ''\<newline>'' @
     ''Key ideas to incorporate from the transcript:\<newline>'' @
     ''- Main points discussed\<newline>'' @
     ''- Any statistics or data mentioned\<newline>'' @
     ''- Examples or stories shared\<newline>'')"

definition CONTENT_NO_TRANSCRIPT_SECTION :: "string" where
  "CONTENT_NO_TRANSCRIPT_SECTION =
     ''\<newline>'' @
     ''Note: No source transcript provided. Generate content based solely on the topic.\<newline>'' @
     ''Research-backed, practical advice is expected.\<newline>''"

definition TRANSLATION_SYSTEM_PROMPT :: "string" where
  "TRANSLATION_SYSTEM_PROMPT =
     ''You are an expert translator and localization specialist.\<newline>'' @
     ''\<newline>'' @
     ''Your translations are:\<newline>'' @
     ''- Natural and fluent (sounds like a native wrote it)\<newline>'' @
     ''- Culturally appropriate (adapts idioms, references)\<newline>'' @
     ''- Accurate (preserves the original meaning)\<newline>'' @
     ''- Consistent (maintains terminology throughout)\<newline>'' @
     ''\<newline>'' @
     ''You preserve:\<newline>'' @
     ''- Markdown formatting\<newline>'' @
     ''- Original structure and flow\<newline>'' @
     ''- The author's voice and tone\<newline>'' @
     ''- Technical terms that shouldn't be translated''"

definition TRANSLATION_PROMPT :: "string \<Rightarrow> string \<Rightarrow> string" where
  "TRANSLATION_PROMPT = (\<lambda>target_language content.
     ''Translate the following blog content into '' @
     target_language @
     ''.\<newline>'' @
     ''\<newline>'' @
     ''ORIGINAL CONTENT:\<newline>'' @
     content @
     ''\<newline>'' @
     ''\<newline>'' @
     ''TRANSLATION GUIDELINES:\<newline>'' @
     ''1. Maintain all Markdown formatting (##, **, etc.)\<newline>'' @
     ''2. Keep the same paragraph structure\<newline>'' @
     ''3. Adapt idioms to natural equivalents (don't translate literally)\<newline>'' @
     ''4. Preserve technical terms, brand names, and URLs unchanged\<newline>'' @
     ''5. Match the tone of the original (professional, casual, etc.)\<newline>'' @
     ''\<newline>'' @
     ''IMPORTANT:\<newline>'' @
     ''- Do NOT add any translator notes or explanations\<newline>'' @
     ''- Do NOT change the meaning or add new information\<newline>'' @
     ''- Do NOT skip any sections\<newline>'' @
     ''\<newline>'' @
     ''OUTPUT: Return ONLY the translated content in Markdown format.\<newline>'')"

section \<open>The language-model client (utils/llm.py)\<close>

text \<open>
  Every exception of the run is a value. \<open>ClientError\<close> is whatever building the client
  raises, \<open>ModelError\<close> whatever \<open>llm.invoke\<close> raises, each with its message.
\<close>

datatype error =
    ClientError string
  | ModelError string
  | IndexError
  | GraphError string
  | GraphRecursionError

text \<open>
  One model call: the temperature the client was built with (\<open>get_llm(temperature=0.8)\<close>
  is 8, in tenths), the system message and the human message.
\<close>

record llm_call =
  temperature :: nat
  system_message :: string
  human_message :: string

text \<open>
  The hosted model is a black box: its reply to a call may depend on that call and on
  every call made before it, and it may fail. The calls made so far are the only state a
  run changes outside the workflow state; each step takes that log and returns it
  extended by the calls it made.
\<close>

type_synonym llm = "llm_call list \<Rightarrow> llm_call \<Rightarrow> error + string"

definition invoke :: "llm \<Rightarrow> llm_call \<Rightarrow> llm_call list \<Rightarrow> (error + string) \<times> llm_call list" where
  "invoke model c log = (model log c, log @ [c])"

text \<open>
  \<open>get_llm\<close> builds the client from the process settings and calls nothing. The
  constructor is the library's; it raises when the settings give it no usable credentials
  (the repository's defaults are an empty key and an empty endpoint). The environment of
  a run holds what the constructor does under the settings in force, \<open>client_failure\<close>
  being the exception it raises if it raises one, and the hosted model behind a client
  that was built.
\<close>

record environment =
  client_failure :: "error option"
  hosted_model :: llm

definition get_llm :: "environment \<Rightarrow> nat \<Rightarrow> error + llm" where
  "get_llm = (\<lambda>env temperature.
     case client_failure env of
       Some e \<Rightarrow> Inl e
     | None \<Rightarrow> Inr (hosted_model env))"

type_synonym node_fn =
  "environment \<Rightarrow> BlogState \<Rightarrow> llm_call list \<Rightarrow> (error + patch) \<times> llm_call list"

section \<open>The title agent (agents/title\_agent.py)\<close>

text \<open>
  \<open>line.split(".", 1)[-1].split(")", 1)[-1].strip()\<close>. Index \<open>-1\<close> is the last element;
  \<open>split1\<close> never returns an empty list.
\<close>

definition remove_numbering :: "string \<Rightarrow> string" where
  "remove_numbering line = strip (last (split1 CHR '')'' (last (split1 CHR ''.'' line))))"

definition begins_with_digit :: "string \<Rightarrow> bool" where
  "begins_with_digit line = (case line of [] \<Rightarrow> False | c # _ \<Rightarrow> isdigit c)"

text \<open>The loop over the lines of the reply; \<open>titles\<close> is the list built so far.\<close>

fun parse_lines :: "string list \<Rightarrow> string list \<Rightarrow> string list" where
  "parse_lines [] titles = titles"
| "parse_lines (l # ls) titles =
     (let line = strip l in
      if begins_with_digit line
      then (let title = remove_numbering line in
            if title \<noteq> [] then parse_lines ls (titles @ [title])
            else parse_lines ls titles)
      else parse_lines ls titles)"

definition parse_titles :: "string \<Rightarrow> string list" where
  "parse_titles content =
     (let raw_titles = strip content in
      parse_lines (split_sep CHR ''\<newline>'' raw_titles) [])"

text \<open>
  The two instructions of the step, as functions of what they are built from:
  \<open>generation_prompt\<close> is the source's local of that name (with \<open>transcript_section\<close>),
  \<open>selection_prompt\<close> the one built from the candidate titles.
\<close>

definition generation_prompt :: "BlogState \<Rightarrow> string" where
  "generation_prompt state =
     (let topic = topic state;
          transcript = transcript state;
          style = style state;
          transcript_section =
            (case transcript of
               None \<Rightarrow> ''No transcript provided - generate titles based on topic alone.''
             | Some t \<Rightarrow>
                 if t \<noteq> [] then ''SOURCE TRANSCRIPT:\<newline>'' @ take 2000 t @ ''...''
                 else ''No transcript provided - generate titles based on topic alone.'')
      in TITLE_GENERATION_PROMPT topic transcript_section style)"

definition selection_prompt :: "BlogState \<Rightarrow> string list \<Rightarrow> string" where
  "selection_prompt state titles =
     (let titles_formatted =
            join ''\<newline>''
              (map (\<lambda>(i, t). str_nat (i + 1) @ ''. '' @ t) (enumerate_from 0 titles))
      in TITLE_SELECTION_PROMPT titles_formatted (topic state) (style state))"

definition title_agent :: node_fn where
  "title_agent env state log =
     (case get_llm env 8 of
        Inl e \<Rightarrow> (Inl e, log)
      | Inr llm \<Rightarrow>
     (case invoke llm \<lparr>temperature = 8, system_message = TITLE_SYSTEM_PROMPT,
                          human_message = generation_prompt state\<rparr> log of
        (Inl e, log1) \<Rightarrow> (Inl e, log1)
      | (Inr generation_response, log1) \<Rightarrow>
          (let parsed = parse_titles generation_response;
               titles = (if parsed = [] then [''Complete Guide to '' @ topic state] else parsed)
           in case invoke llm \<lparr>temperature = 8, system_message = TITLE_SYSTEM_PROMPT,
                                  human_message = selection_prompt state titles\<rparr> log1 of
                (Inl e, log2) \<Rightarrow> (Inl e, log2)
              | (Inr selection_response, log2) \<Rightarrow>
                  (let selected_title = strip selection_response in
                   if selected_title \<notin> set titles
                   then (case titles of
                           [] \<Rightarrow> (Inl IndexError, log2)
                         | first # _ \<Rightarrow>
                             (Inr [Brainstormed_titles titles, Selected_title first], log2))
                   else (Inr [Brainstormed_titles titles, Selected_title selected_title],
                         log2)))))"

section \<open>The content agent (agents/content\_agent.py)\<close>

definition content_prompt :: "BlogState \<Rightarrow> string" where
  "content_prompt state =
     (let topic = topic state;
          title = selected_title state;
          transcript = transcript state;
          style = style state;
          transcript_section =
            (case transcript of
               None \<Rightarrow> CONTENT_NO_TRANSCRIPT_SECTION
             | Some t \<Rightarrow>
                 if t \<noteq> [] \<and> strip t \<noteq> []
                 then (let transcript_text = take 5000 t
                       in CONTENT_WITH_TRANSCRIPT_SECTION transcript_text)
                 else CONTENT_NO_TRANSCRIPT_SECTION)
      in CONTENT_GENERATION_PROMPT title topic style transcript_section)"

definition content_agent :: node_fn where
  "content_agent env state log =
     (case get_llm env 7 of
        Inl e \<Rightarrow> (Inl e, log)
      | Inr llm \<Rightarrow>
     (case invoke llm \<lparr>temperature = 7, system_message = CONTENT_SYSTEM_PROMPT,
                          human_message = content_prompt state\<rparr> log of
        (Inl e, log1) \<Rightarrow> (Inl e, log1)
      | (Inr response, log1) \<Rightarrow>
          (let blog_content = strip response;
               word_count = int (length (split_ws blog_content))
           in (Inr [Blog_content blog_content, Word_count word_count,
                    Final_content blog_content], log1))))"

section \<open>The translation agent (agents/translation\_agent.py)\<close>

text \<open>
  The client is built first, before the guard. The guard \<open>if not target_language\<close> holds
  for \<open>None\<close> and for the empty string; past it the language is a non-empty string, the
  one the prompt is formatted with.
\<close>

definition translation_agent :: node_fn where
  "translation_agent env state log =
     (case get_llm env 3 of
        Inl e \<Rightarrow> (Inl e, log)
      | Inr llm \<Rightarrow>
     (let content = blog_content state;
          target_language = target_language state
      in if \<not> truthy target_language
         then (Inr [Translated_content None, Final_content content], log)
         else (let translation_prompt =
                     TRANSLATION_PROMPT (case target_language of None \<Rightarrow> [] | Some t \<Rightarrow> t)
                       content
               in case invoke llm \<lparr>temperature = 3,
                                      system_message = TRANSLATION_SYSTEM_PROMPT,
                                      human_message = translation_prompt\<rparr> log of
                    (Inl e, log1) \<Rightarrow> (Inl e, log1)
                  | (Inr response, log1) \<Rightarrow>
                      (let translated_content = strip response in
                       (Inr [Translated_content (Some translated_content),
                             Final_content translated_content], log1)))))"

section \<open>The workflow graph (graph/workflow.py)\<close>

text \<open>
  The graph builder of the orchestration library, as data: the nodes by name, the
  unconditional edges, and the conditional edges (a router and the map from its labels to
  node names). \<open>START\<close> and \<open>END\<close> are the library's two reserved names.
\<close>

record StateGraph =
  nodes :: "(string \<times> node_fn) list"
  edges :: "(string \<times> string) list"
  branches :: "(string \<times> (BlogState \<Rightarrow> string) \<times> (string \<times> string) list) list"

definition START :: string where
  "START = ''__start__''"

definition END :: string where
  "END = ''__end__''"

definition empty_graph :: StateGraph where
  "empty_graph = \<lparr>nodes = [], edges = [], branches = []\<rparr>"

definition add_node :: "string \<Rightarrow> node_fn \<Rightarrow> StateGraph \<Rightarrow> StateGraph" where
  "add_node name f g = g\<lparr>nodes := nodes g @ [(name, f)]\<rparr>"

definition add_edge :: "string \<Rightarrow> string \<Rightarrow> StateGraph \<Rightarrow> StateGraph" where
  "add_edge a b g = g\<lparr>edges := edges g @ [(a, b)]\<rparr>"

definition add_conditional_edges ::
  "string \<Rightarrow> (BlogState \<Rightarrow> string) \<Rightarrow> (string \<times> string) list \<Rightarrow> StateGraph \<Rightarrow> StateGraph" where
  "add_conditional_edges a router path_map g = g\<lparr>branches := branches g @ [(a, router, path_map)]\<rparr>"

definition create_workflow :: StateGraph where
  "create_workflow =
     (let builder = empty_graph;
          builder = add_node ''title_agent'' title_agent builder;
          builder = add_node ''content_agent'' content_agent builder;
          builder = add_node ''translation_agent'' translation_agent builder;
          builder = add_edge START ''title_agent'' builder;
          builder = add_edge ''title_agent'' ''content_agent'' builder;
          builder = add_conditional_edges ''content_agent'' should_translate
                      [(''translate'', ''translation_agent''), (''end'', END)] builder;
          builder = add_edge ''translation_agent'' END builder
      in builder)"

text \<open>
  The library's execution of a compiled graph with one active node at a time: the node
  after \<open>cur\<close> is chosen by its conditional edges, applied to the state as it stands, if
  it has any, and by its unconditional edge otherwise; a node with neither ends the run.
\<close>

definition next_node :: "StateGraph \<Rightarrow> string \<Rightarrow> BlogState \<Rightarrow> error + string" where
  "next_node g cur st =
     (case map_of (branches g) cur of
        Some (router, path_map) \<Rightarrow>
          (case map_of path_map (router st) of
             Some n \<Rightarrow> Inr n
           | None \<Rightarrow> Inl (GraphError (router st)))
      | None \<Rightarrow>
          (case map_of (edges g) cur of
             Some n \<Rightarrow> Inr n
           | None \<Rightarrow> Inr END))"

text \<open>
  \<open>run_from n g env cur st trace log\<close> runs the node \<open>cur\<close> and those after it. Each
  node's patch is merged before the next node is chosen; the first error ends the run;
  \<open>trace\<close> collects the names of the nodes run. \<open>n\<close> bounds the number of steps, as the
  library's recursion limit does (25 by default).
\<close>

fun run_from ::
  "nat \<Rightarrow> StateGraph \<Rightarrow> environment \<Rightarrow> string \<Rightarrow> BlogState \<Rightarrow> string list \<Rightarrow> llm_call list
     \<Rightarrow> (error + BlogState \<times> string list) \<times> llm_call list" where
  "run_from 0 g env cur st trace log =
     (if cur = END then (Inr (st, trace), log) else (Inl GraphRecursionError, log))"
| "run_from (Suc n) g env cur st trace log =
     (if cur = END then (Inr (st, trace), log)
      else (case map_of (nodes g) cur of
              None \<Rightarrow> (Inl (GraphError cur), log)
            | Some f \<Rightarrow>
                (case f env st log of
                   (Inl e, log1) \<Rightarrow> (Inl e, log1)
                 | (Inr p, log1) \<Rightarrow>
                     (let st1 = merge st p in
                      case next_node g cur st1 of
                        Inl e \<Rightarrow> (Inl e, log1)
                      | Inr nxt \<Rightarrow> run_from n g env nxt st1 (trace @ [cur]) log1))))"

text \<open>\<open>workflow.invoke(initial_state)\<close>: the run starts at the node \<open>START\<close> leads to.\<close>

definition invoke_graph ::
  "StateGraph \<Rightarrow> environment \<Rightarrow> BlogState \<Rightarrow> llm_call list
     \<Rightarrow> (error + BlogState \<times> string list) \<times> llm_call list" where
  "invoke_graph g env st log =
     (case next_node g START st of
        Inl e \<Rightarrow> (Inl e, log)
      | Inr entry \<Rightarrow> run_from 25 g env entry st [] log)"

text \<open>
  The contract of "run" in the words of section 4.5 of the spec: the Title step and its
  merge, the Content step and its merge, the Branch Decision on the merged state, the
  Translation step and its merge when the decision is "translate"; a step that fails
  ends the run.
\<close>

definition run_contract ::
  "environment \<Rightarrow> BlogState \<Rightarrow> llm_call list \<Rightarrow> (error + BlogState \<times> string list) \<times> llm_call list" where
  "run_contract env st log =
     (case title_agent env st log of
        (Inl e, log1) \<Rightarrow> (Inl e, log1)
      | (Inr p1, log1) \<Rightarrow>
          (let st1 = merge st p1 in
           case content_agent env st1 log1 of
             (Inl e, log2) \<Rightarrow> (Inl e, log2)
           | (Inr p2, log2) \<Rightarrow>
               (let st2 = merge st1 p2 in
                if should_translate st2 = ''translate''
                then (case translation_agent env st2 log2 of
                        (Inl e, log3) \<Rightarrow> (Inl e, log3)
                      | (Inr p3, log3) \<Rightarrow>
                          (Inr (merge st2 p3,
                                [''title_agent'', ''content_agent'', ''translation_agent'']),
                           log3))
                else (Inr (st2, [''title_agent'', ''content_agent'']), log2))))"

section \<open>The generation endpoint (api/routes.py, models/api\_models.py)\<close>

record BlogGenerationRequest =
  req_topic :: string
  req_transcript :: "string option"
  req_target_language :: "string option"
  req_style :: string

text \<open>
  The response without \<open>generation_time_seconds\<close>, a rounded wall-clock float.
\<close>

record BlogGenerationResponse =
  title :: string
  content :: string
  resp_word_count :: int
  was_translated :: bool
  resp_target_language :: "string option"
  resp_brainstormed_titles :: "string list"

datatype http_error =
    Unprocessable
  | GenerationFailed error

text \<open>The field constraints of the request model, checked before the handler runs.\<close>

definition valid_request :: "BlogGenerationRequest \<Rightarrow> bool" where
  "valid_request request =
     (3 \<le> length (req_topic request) \<and> length (req_topic request) \<le> 500 \<and>
      (case req_transcript request of None \<Rightarrow> True | Some t \<Rightarrow> length t \<le> 50000))"

definition initial_state :: "BlogGenerationRequest \<Rightarrow> BlogState" where
  "initial_state request =
     \<lparr>topic = req_topic request,
      transcript = req_transcript request,
      target_language = req_target_language request,
      style = req_style request,
      brainstormed_titles = [],
      selected_title = [],
      blog_content = [],
      translated_content = None,
      final_content = [],
      word_count = 0\<rparr>"

definition generate_blog ::
  "environment \<Rightarrow> BlogGenerationRequest \<Rightarrow> llm_call list
     \<Rightarrow> (http_error + BlogGenerationResponse) \<times> llm_call list" where
  "generate_blog env request log =
     (if \<not> valid_request request then (Inl Unprocessable, log)
      else (case invoke_graph create_workflow env (initial_state request) log of
              (Inl e, log1) \<Rightarrow> (Inl (GenerationFailed e), log1)
            | (Inr (result, trace), log1) \<Rightarrow>
                (Inr \<lparr>title = selected_title result,
                      content = final_content result,
                      resp_word_count = word_count result,
                      was_translated = truthy (translated_content result),
                      resp_target_language = req_target_language request,
                      resp_brainstormed_titles = brainstormed_titles result\<rparr>, log1)))"

section \<open>The token count, in the spec's words\<close>

text \<open>
  The number of whitespace-delimited tokens of a text: the number of positions at which a
  token starts, that is, a character that is not whitespace and that stands first or
  after whitespace.
\<close>

fun token_starts :: "bool \<Rightarrow> string \<Rightarrow> nat" where
  "token_starts after_space [] = 0"
| "token_starts after_space (c # cs) =
     (if \<not> isspace c \<and> after_space then 1 else 0) + token_starts (isspace c) cs"

definition count_tokens :: "string \<Rightarrow> nat" where
  "count_tokens s = token_starts True s"


section \<open>Example inputs\<close>

text \<open>
  A model that answers its calls from a script, the \<open>n\<close>-th call with the \<open>n\<close>-th
  reply, and fails once the script is used up.
\<close>

definition scripted :: "string list \<Rightarrow> llm" where
  "scripted replies log c =
     (if length log < length replies then Inr (replies ! length log)
      else Inl (ModelError ''no reply left''))"

text \<open>The environment in which the client is built and answers from the script.\<close>

definition scripted_env :: "string list \<Rightarrow> environment" where
  "scripted_env replies = \<lparr>client_failure = None, hosted_model = scripted replies\<rparr>"

text \<open>The environment without credentials: the client cannot be built.\<close>

definition no_credentials :: environment where
  "no_credentials =
     \<lparr>client_failure = Some (ClientError ''no credentials''), hosted_model = scripted []\<rparr>"

definition titles_reply :: string where
  "titles_reply = ''1. How to Master Remote Work\<newline>2) 7 Secrets of Remote Workers''"

definition content_reply :: string where
  "content_reply = '' Remote work has changed offices.\<newline>''"

definition request_es :: BlogGenerationRequest where
  "request_es = \<lparr>req_topic = ''Remote Work'', req_transcript = None,
     req_target_language = Some ''Spanish'', req_style = ''professional''\<rparr>"

definition request_plain :: BlogGenerationRequest where
  "request_plain = \<lparr>req_topic = ''Remote Work'', req_transcript = None,
     req_target_language = None, req_style = ''professional''\<rparr>"

definition replies_es :: "string list" where
  "replies_es = [titles_reply, ''7 Secrets of Remote Workers'', content_reply,
     ''El teletrabajo cambia oficinas.'']"

definition replies_mismatch :: "string list" where
  "replies_mismatch = [titles_reply, ''I would pick the second one.'', content_reply]"

definition replies_unparsed :: "string list" where
  "replies_unparsed = [''Sorry, no list today'', ''Any other title'', content_reply]"

definition replies_blank_translation :: "string list" where
  "replies_blank_translation = [titles_reply, ''7 Secrets of Remote Workers'', content_reply,
     ''   '']"

text \<open>The states the example runs end in.\<close>

definition final_state_es :: BlogState where
  "final_state_es =
     \<lparr>topic = ''Remote Work'', transcript = None, target_language = Some ''Spanish'',
      style = ''professional'',
      brainstormed_titles = [''How to Master Remote Work'', ''7 Secrets of Remote Workers''],
      selected_title = ''7 Secrets of Remote Workers'',
      blog_content = ''Remote work has changed offices.'',
      translated_content = Some ''El teletrabajo cambia oficinas.'',
      final_content = ''El teletrabajo cambia oficinas.'',
      word_count = 5\<rparr>"

definition final_state_plain :: BlogState where
  "final_state_plain =
     \<lparr>topic = ''Remote Work'', transcript = None, target_language = None,
      style = ''professional'',
      brainstormed_titles = [''How to Master Remote Work'', ''7 Secrets of Remote Workers''],
      selected_title = ''7 Secrets of Remote Workers'',
      blog_content = ''Remote work has changed offices.'',
      translated_content = None,
      final_content = ''Remote work has changed offices.'',
      word_count = 5\<rparr>"

definition final_state_blank :: BlogState where
  "final_state_blank =
     \<lparr>topic = ''Remote Work'', transcript = None, target_language = Some ''Spanish'',
      style = ''professional'',
      brainstormed_titles = [''How to Master Remote Work'', ''7 Secrets of Remote Workers''],
      selected_title = ''7 Secrets of Remote Workers'',
      blog_content = ''Remote work has changed offices.'',
      translated_content = Some [],
      final_content = [],
      word_count = 5\<rparr>"

text \<open>
  The states of two direct calls of the translation step, after the content "Some content"
  was written to \<open>blog_content\<close> alone: without a target language, and with a
  whitespace-only one.
\<close>

definition direct_state :: BlogState where
  "direct_state = (initial_state request_plain)\<lparr>blog_content := ''Some content''\<rparr>"

definition direct_state_blank :: BlogState where
  "direct_state_blank = direct_state\<lparr>target_language := Some ''   ''\<rparr>"

section \<open>Properties\<close>

lemma strip_Nil: "strip [] = []"
  by (simp add: strip_def)

subsection \<open>Merging, parsing and the steps\<close>

lemma merge_Nil: "merge st [] = st"
  by (simp add: merge_def)

lemma merge_Cons: "merge st (u # p) = merge (apply_update st u) p"
  by (simp add: merge_def)

lemma split1_not_Nil: "split1 sep s \<noteq> []"
  by (simp add: split1_def split: list.splits)

lemma parse_lines_nonempty:
  "list_all (\<lambda>t. t \<noteq> []) titles \<Longrightarrow> list_all (\<lambda>t. t \<noteq> []) (parse_lines ls titles)"
  by (induction ls arbitrary: titles) (simp_all add: Let_def)

lemma parse_titles_nonempty: "list_all (\<lambda>t. t \<noteq> []) (parse_titles g)"
  by (simp add: parse_titles_def parse_lines_nonempty)

lemma get_llm_built: "client_failure env = None \<Longrightarrow> get_llm env t = Inr (hosted_model env)"
  by (simp add: get_llm_def)

lemma get_llm_failed: "client_failure env = Some e \<Longrightarrow> get_llm env t = Inl e"
  by (simp add: get_llm_def)

lemma title_agent_client_failure:
  "client_failure env = Some e \<Longrightarrow> title_agent env st log = (Inl e, log)"
  by (simp add: title_agent_def get_llm_failed)

lemma content_agent_client_failure:
  "client_failure env = Some e \<Longrightarrow> content_agent env st log = (Inl e, log)"
  by (simp add: content_agent_def get_llm_failed)

lemma translation_agent_client_failure:
  "client_failure env = Some e \<Longrightarrow> translation_agent env st log = (Inl e, log)"
  by (simp add: translation_agent_def get_llm_failed)

lemma title_agent_returns_built:
  "title_agent env st log = (Inr p, log') \<Longrightarrow> client_failure env = None"
  using title_agent_client_failure [of env _ st log] by (cases "client_failure env") auto

lemma content_agent_returns_built:
  "content_agent env st log = (Inr p, log') \<Longrightarrow> client_failure env = None"
  using content_agent_client_failure [of env _ st log] by (cases "client_failure env") auto

lemma translation_agent_returns_built:
  "translation_agent env st log = (Inr p, log') \<Longrightarrow> client_failure env = None"
  using translation_agent_client_failure [of env _ st log] by (cases "client_failure env") auto

lemma title_agent_Inr:
  assumes "title_agent env st log = (Inr p, log')"
  shows "\<exists>g s T. log' = log @ [\<lparr>temperature = 8, system_message = TITLE_SYSTEM_PROMPT,
                                    human_message = generation_prompt st\<rparr>,
                                   \<lparr>temperature = 8, system_message = TITLE_SYSTEM_PROMPT,
                                    human_message = selection_prompt st T\<rparr>]
           \<and> hosted_model env log \<lparr>temperature = 8, system_message = TITLE_SYSTEM_PROMPT,
                          human_message = generation_prompt st\<rparr> = Inr g
           \<and> hosted_model env (log @ [\<lparr>temperature = 8, system_message = TITLE_SYSTEM_PROMPT,
                              human_message = generation_prompt st\<rparr>])
                 \<lparr>temperature = 8, system_message = TITLE_SYSTEM_PROMPT,
                  human_message = selection_prompt st T\<rparr> = Inr s
           \<and> T = (if parse_titles g = [] then [''Complete Guide to '' @ topic st]
                  else parse_titles g)
           \<and> T \<noteq> []
           \<and> p = [Brainstormed_titles T,
                  Selected_title (if strip s \<in> set T then strip s else hd T)]"
proof -
  note cf = get_llm_built [OF title_agent_returns_built [OF assms]]
  let ?c1 = "\<lparr>temperature = 8, system_message = TITLE_SYSTEM_PROMPT,
              human_message = generation_prompt st\<rparr>"
  obtain g where g: "hosted_model env log ?c1 = Inr g"
    using assms unfolding title_agent_def cf invoke_def
    by (cases "hosted_model env log ?c1") simp_all
  define T where "T = (if parse_titles g = [] then [''Complete Guide to '' @ topic st]
                       else parse_titles g)"
  let ?c2 = "\<lparr>temperature = 8, system_message = TITLE_SYSTEM_PROMPT,
              human_message = selection_prompt st T\<rparr>"
  have TN: "T \<noteq> []" by (simp add: T_def)
  have step: "title_agent env st log =
     (case hosted_model env (log @ [?c1]) ?c2 of
        Inl e \<Rightarrow> (Inl e, log @ [?c1, ?c2])
      | Inr s \<Rightarrow>
          (if strip s \<notin> set T
           then (case T of [] \<Rightarrow> (Inl IndexError, log @ [?c1, ?c2])
                 | first # _ \<Rightarrow> (Inr [Brainstormed_titles T, Selected_title first], log @ [?c1, ?c2]))
           else (Inr [Brainstormed_titles T, Selected_title (strip s)], log @ [?c1, ?c2])))"
    unfolding title_agent_def cf invoke_def T_def
    by (simp add: g Let_def split: sum.splits list.splits)
  obtain s where s: "hosted_model env (log @ [?c1]) ?c2 = Inr s"
    using assms unfolding step
    by (cases "hosted_model env (log @ [?c1]) ?c2") simp_all
  have "log' = log @ [?c1, ?c2] \<and>
        p = [Brainstormed_titles T, Selected_title (if strip s \<in> set T then strip s else hd T)]"
    using assms TN unfolding step s
    by (cases T) (auto split: if_split_asm)
  with g s TN T_def show ?thesis by blast
qed

lemma content_agent_Inr:
  assumes "content_agent env st log = (Inr p, log')"
  shows "\<exists>r. log' = log @ [\<lparr>temperature = 7, system_message = CONTENT_SYSTEM_PROMPT,
                              human_message = content_prompt st\<rparr>]
           \<and> hosted_model env log \<lparr>temperature = 7, system_message = CONTENT_SYSTEM_PROMPT,
                          human_message = content_prompt st\<rparr> = Inr r
           \<and> p = [Blog_content (strip r), Word_count (int (length (split_ws (strip r)))),
                  Final_content (strip r)]"
  using assms
  unfolding content_agent_def get_llm_built [OF content_agent_returns_built [OF assms]]
    invoke_def Let_def
  by (auto split: sum.splits)

lemma translation_agent_Inr:
  assumes "translation_agent env st log = (Inr p, log')" and "truthy (target_language st)"
  shows "\<exists>c r. log' = log @ [c] \<and> hosted_model env log c = Inr r
           \<and> p = [Translated_content (Some (strip r)), Final_content (strip r)]"
  using assms
  unfolding translation_agent_def get_llm_built [OF translation_agent_returns_built [OF assms(1)]]
    invoke_def Let_def
  by (auto split: sum.splits)

lemma should_translate_truthy:
  "should_translate st = ''translate'' \<Longrightarrow> truthy (target_language st)"
  by (simp add: should_translate_def Let_def split: if_splits)

lemma should_translate_labels:
  "should_translate st = ''translate'' \<or> should_translate st = ''end''"
  by (simp add: should_translate_def Let_def)

lemma run_from_END: "run_from n g env END st tr log = (Inr (st, tr), log)"
  by (cases n) simp_all

lemma run_from_step:
  assumes "cur \<noteq> END" and "map_of (nodes g) cur = Some f"
  shows "run_from (Suc n) g env cur st tr log =
     (case f env st log of
        (Inl e, log1) \<Rightarrow> (Inl e, log1)
      | (Inr p, log1) \<Rightarrow>
          (case next_node g cur (merge st p) of
             Inl e \<Rightarrow> (Inl e, log1)
           | Inr nxt \<Rightarrow> run_from n g env nxt (merge st p) (tr @ [cur]) log1))"
  using assms by (simp add: Let_def split: prod.splits sum.splits)

lemma nodes_create_workflow:
  "nodes create_workflow =
     [(''title_agent'', title_agent), (''content_agent'', content_agent),
      (''translation_agent'', translation_agent)]"
  by (simp add: create_workflow_def add_node_def add_edge_def add_conditional_edges_def
      empty_graph_def)

lemma edges_create_workflow:
  "edges create_workflow =
     [(START, ''title_agent''), (''title_agent'', ''content_agent''),
      (''translation_agent'', END)]"
  by (simp add: create_workflow_def add_node_def add_edge_def add_conditional_edges_def
      empty_graph_def)

lemma branches_create_workflow:
  "branches create_workflow =
     [(''content_agent'', should_translate,
       [(''translate'', ''translation_agent''), (''end'', END)])]"
  by (simp add: create_workflow_def add_node_def add_edge_def add_conditional_edges_def
      empty_graph_def)

lemma next_node_START: "next_node create_workflow START st = Inr ''title_agent''"
  by (simp add: next_node_def branches_create_workflow edges_create_workflow START_def)

lemma next_node_title: "next_node create_workflow ''title_agent'' st = Inr ''content_agent''"
  by (simp add: next_node_def branches_create_workflow edges_create_workflow START_def)

lemma next_node_content:
  "next_node create_workflow ''content_agent'' st =
     (if should_translate st = ''translate'' then Inr ''translation_agent'' else Inr END)"
  using should_translate_labels [of st]
  by (auto simp add: next_node_def branches_create_workflow)

lemma next_node_translation: "next_node create_workflow ''translation_agent'' st = Inr END"
  by (simp add: next_node_def branches_create_workflow edges_create_workflow START_def)

lemma invoke_create_workflow:
  "invoke_graph create_workflow env st log = run_contract env st log"
proof -
  have n25: "(25::nat) = Suc (Suc (Suc 22))" by simp
  have t: "run_from (Suc n) create_workflow env ''title_agent'' s tr l =
     (case title_agent env s l of
        (Inl e, log1) \<Rightarrow> (Inl e, log1)
      | (Inr p, log1) \<Rightarrow>
          run_from n create_workflow env ''content_agent'' (merge s p) (tr @ [''title_agent'']) log1)"
    for n s tr l
    by (subst run_from_step [where f = title_agent])
      (simp_all add: END_def nodes_create_workflow next_node_title split: prod.splits sum.splits)
  have c: "run_from (Suc n) create_workflow env ''content_agent'' s tr l =
     (case content_agent env s l of
        (Inl e, log1) \<Rightarrow> (Inl e, log1)
      | (Inr p, log1) \<Rightarrow>
          (if should_translate (merge s p) = ''translate''
           then run_from n create_workflow env ''translation_agent'' (merge s p)
                  (tr @ [''content_agent'']) log1
           else (Inr (merge s p, tr @ [''content_agent'']), log1)))"
    for n s tr l
    by (subst run_from_step [where f = content_agent])
      (auto simp add: END_def [symmetric] nodes_create_workflow next_node_content run_from_END
        split: prod.splits sum.splits, simp_all add: END_def)
  have r: "run_from (Suc n) create_workflow env ''translation_agent'' s tr l =
     (case translation_agent env s l of
        (Inl e, log1) \<Rightarrow> (Inl e, log1)
      | (Inr p, log1) \<Rightarrow> (Inr (merge s p, tr @ [''translation_agent'']), log1))"
    for n s tr l
    by (subst run_from_step [where f = translation_agent])
      (auto simp add: END_def [symmetric] nodes_create_workflow next_node_translation run_from_END
        split: prod.splits sum.splits, simp_all add: END_def)
  show ?thesis
    unfolding invoke_graph_def next_node_START n25
    by (simp only: sum.case t c r run_contract_def Let_def append_Nil append_Cons
        split: prod.splits sum.splits)
qed

lemma run_contract_Inr:
  assumes "run_contract env st log = (Inr (st', tr), log')"
  shows "\<exists>p1 l1 p2 l2. title_agent env st log = (Inr p1, l1)
           \<and> content_agent env (merge st p1) l1 = (Inr p2, l2)
           \<and> (if should_translate (merge (merge st p1) p2) = ''translate''
               then (\<exists>p3. translation_agent env (merge (merge st p1) p2) l2 = (Inr p3, log')
                      \<and> st' = merge (merge (merge st p1) p2) p3)
                    \<and> tr = [''title_agent'', ''content_agent'', ''translation_agent'']
               else st' = merge (merge st p1) p2 \<and> log' = l2
                    \<and> tr = [''title_agent'', ''content_agent''])"
  using assms unfolding run_contract_def Let_def
  by (auto split: prod.splits sum.splits if_split_asm)

lemma run_contract_result:
  assumes "run_contract env st log = (Inr (st', tr), log')"
  shows "\<exists>g s r. hosted_model env log \<lparr>temperature = 8, system_message = TITLE_SYSTEM_PROMPT,
                    human_message = generation_prompt st\<rparr> = Inr g
           \<and> brainstormed_titles st' =
               (if parse_titles g = [] then [''Complete Guide to '' @ topic st]
                else parse_titles g)
           \<and> brainstormed_titles st' \<noteq> []
           \<and> selected_title st' =
               (if strip s \<in> set (brainstormed_titles st') then strip s
                else hd (brainstormed_titles st'))
           \<and> blog_content st' = strip r
           \<and> word_count st' = int (length (split_ws (strip r)))
           \<and> topic st' = topic st \<and> transcript st' = transcript st
           \<and> target_language st' = target_language st \<and> style st' = style st
           \<and> (if should_translate st' = ''translate''
               then tr = [''title_agent'', ''content_agent'', ''translation_agent'']
                    \<and> (\<exists>c r'. log' = butlast log' @ [c] \<and> hosted_model env (butlast log') c = Inr r'
                          \<and> translated_content st' = Some (strip r')
                          \<and> final_content st' = strip r')
               else tr = [''title_agent'', ''content_agent'']
                    \<and> translated_content st' = translated_content st
                    \<and> final_content st' = blog_content st')"
proof -
  from run_contract_Inr [OF assms] obtain p1 l1 p2 l2 where
    t: "title_agent env st log = (Inr p1, l1)" and
    c: "content_agent env (merge st p1) l1 = (Inr p2, l2)" and
    b: "if should_translate (merge (merge st p1) p2) = ''translate''
        then (\<exists>p3. translation_agent env (merge (merge st p1) p2) l2 = (Inr p3, log')
               \<and> st' = merge (merge (merge st p1) p2) p3)
             \<and> tr = [''title_agent'', ''content_agent'', ''translation_agent'']
        else st' = merge (merge st p1) p2 \<and> log' = l2
             \<and> tr = [''title_agent'', ''content_agent'']"
    by blast
  from title_agent_Inr [OF t] obtain g s T where
    g: "hosted_model env log \<lparr>temperature = 8, system_message = TITLE_SYSTEM_PROMPT,
                    human_message = generation_prompt st\<rparr> = Inr g" and
    T: "T = (if parse_titles g = [] then [''Complete Guide to '' @ topic st]
             else parse_titles g)" and TN: "T \<noteq> []" and
    p1: "p1 = [Brainstormed_titles T,
               Selected_title (if strip s \<in> set T then strip s else hd T)]"
    by blast
  from content_agent_Inr [OF c] obtain r where
    p2: "p2 = [Blog_content (strip r), Word_count (int (length (split_ws (strip r)))),
               Final_content (strip r)]"
    by blast
  let ?st2 = "merge (merge st p1) p2"
  have tl2: "target_language ?st2 = target_language st"
    by (simp add: p1 p2 merge_Cons merge_Nil)
  have sh2: "should_translate ?st2 = should_translate st"
    by (simp add: should_translate_def tl2)
  show ?thesis
  proof (cases "should_translate st = ''translate''")
    case True
    with b sh2 obtain p3 where
      tr: "translation_agent env ?st2 l2 = (Inr p3, log')" and
      st': "st' = merge ?st2 p3" and
      trace: "tr = [''title_agent'', ''content_agent'', ''translation_agent'']"
      by auto
    from True have "truthy (target_language ?st2)"
      using should_translate_truthy tl2 by simp
    from translation_agent_Inr [OF tr this] obtain c' r' where
      l: "log' = l2 @ [c']" and m: "hosted_model env l2 c' = Inr r'" and
      p3: "p3 = [Translated_content (Some (strip r')), Final_content (strip r')]"
      by blast
    have tl': "target_language st' = target_language st"
      by (simp add: st' p1 p2 p3 merge_Cons merge_Nil)
    have sh': "should_translate st' = ''translate''"
      using True by (simp add: should_translate_def tl')
    have "log' = butlast log' @ [c'] \<and> hosted_model env (butlast log') c' = Inr r'"
      using l m by simp
    then show ?thesis
      using g T TN sh' trace
      by (simp add: st' p1 p2 p3 merge_Cons merge_Nil
          del: should_translate_def) blast
  next
    case False
    with b sh2 have st': "st' = ?st2" and trace: "tr = [''title_agent'', ''content_agent'']"
      by auto
    have sh': "should_translate st' \<noteq> ''translate''"
      using False sh2 st' by simp
    show ?thesis
      using g T TN sh' trace
      by (simp add: st' p1 p2 merge_Cons merge_Nil) blast
  qed
qed

lemma length_split_ws_aux:
  "length (split_ws_aux w s) = (if w = [] then token_starts True s else 1 + token_starts False s)"
  by (induction s arbitrary: w) auto

lemma length_split_ws: "length (split_ws s) = count_tokens s"
  by (simp add: split_ws_def count_tokens_def length_split_ws_aux)

lemma title_agent_ignores_final_content:
  "title_agent env (st\<lparr>final_content := x\<rparr>) log = title_agent env st log"
proof -
  have a: "generation_prompt (st\<lparr>final_content := x\<rparr>) = generation_prompt st"
    by (simp add: generation_prompt_def)
  have b: "selection_prompt (st\<lparr>final_content := x\<rparr>) T = selection_prompt st T" for T
    by (simp add: selection_prompt_def)
  have c: "topic (st\<lparr>final_content := x\<rparr>) = topic st"
    by simp
  show ?thesis
    unfolding title_agent_def a b c by (rule refl)
qed

lemma content_agent_ignores_final_content:
  "content_agent env (st\<lparr>final_content := x\<rparr>) log = content_agent env st log"
proof -
  have a: "content_prompt (st\<lparr>final_content := x\<rparr>) = content_prompt st"
    by (simp add: content_prompt_def)
  show ?thesis
    unfolding content_agent_def a by (rule refl)
qed

lemma run_contract_ignores_final_content:
  "run_contract env (st\<lparr>final_content := x\<rparr>) log = run_contract env st log"
proof (cases "title_agent env st log")
  case (Pair a l1)
  show ?thesis
  proof (cases a)
    case (Inl e)
    with Pair show ?thesis
      by (simp add: run_contract_def title_agent_ignores_final_content)
  next
    case (Inr p1)
    with Pair have t: "title_agent env st log = (Inr p1, l1)" by simp
    from title_agent_Inr [OF t] obtain T u where
      p1: "p1 = [Brainstormed_titles T, Selected_title u]" by blast
    have m1: "merge (st\<lparr>final_content := x\<rparr>) p1 = (merge st p1)\<lparr>final_content := x\<rparr>"
      by (simp add: p1 merge_Cons merge_Nil)
    show ?thesis
    proof (cases "content_agent env (merge st p1) l1")
      case (Pair b l2)
      note c = this
      show ?thesis
      proof (cases b)
        case (Inl e)
        with c t show ?thesis
          by (simp add: run_contract_def title_agent_ignores_final_content m1
              content_agent_ignores_final_content)
      next
        case (Inr p2)
        with c have c': "content_agent env (merge st p1) l1 = (Inr p2, l2)" by simp
        from content_agent_Inr [OF c'] obtain r where
          p2: "p2 = [Blog_content (strip r), Word_count (int (length (split_ws (strip r)))),
                     Final_content (strip r)]" by blast
        have m2: "merge ((merge st p1)\<lparr>final_content := x\<rparr>) p2 = merge (merge st p1) p2"
          by (simp add: p2 merge_Cons merge_Nil)
        show ?thesis
          using t c'
          by (simp add: run_contract_def title_agent_ignores_final_content m1
              content_agent_ignores_final_content m2)
      qed
    qed
  qed
qed


subsection \<open>The example runs\<close>

lemmas eval_defs = parse_titles_def strip_def isspace_def isdigit_def remove_numbering_def
  split1_def begins_with_digit_def split_ws_def Let_def

lemmas run_defs = run_contract_def title_agent_def content_agent_def translation_agent_def
  get_llm_def scripted_env_def invoke_def scripted_def initial_state_def should_translate_def merge_Cons merge_Nil

lemma parse_titles_example:
  "parse_titles titles_reply = [''How to Master Remote Work'', ''7 Secrets of Remote Workers'']"
  by (simp add: titles_reply_def eval_defs)

lemma run_example_es:
  "fst (run_contract (scripted_env replies_es) (initial_state request_es) []) =
     Inr (final_state_es, [''title_agent'', ''content_agent'', ''translation_agent''])"
  by (simp add: run_defs replies_es_def request_es_def final_state_es_def content_reply_def
      parse_titles_example strip_def isspace_def split_ws_def Let_def)

lemma run_example_plain:
  "fst (run_contract (scripted_env replies_es) (initial_state request_plain) []) =
     Inr (final_state_plain, [''title_agent'', ''content_agent''])"
  by (simp add: run_defs replies_es_def request_plain_def final_state_plain_def
      content_reply_def parse_titles_example strip_def isspace_def split_ws_def Let_def)

lemma run_example_blank:
  "fst (run_contract (scripted_env replies_blank_translation) (initial_state request_es) []) =
     Inr (final_state_blank, [''title_agent'', ''content_agent'', ''translation_agent''])"
  by (simp add: run_defs replies_blank_translation_def request_es_def final_state_blank_def
      content_reply_def parse_titles_example strip_def isspace_def split_ws_def Let_def)

lemma title_agent_total:
  assumes "client_failure env = None" and "\<forall>l c. \<exists>r. hosted_model env l c = Inr r"
  shows "\<exists>p l'. title_agent env st log = (Inr p, l')"
proof -
  let ?c1 = "\<lparr>temperature = 8, system_message = TITLE_SYSTEM_PROMPT,
              human_message = generation_prompt st\<rparr>"
  from assms(2) obtain g where g: "hosted_model env log ?c1 = Inr g" by blast
  define T where "T = (if parse_titles g = [] then [''Complete Guide to '' @ topic st]
                       else parse_titles g)"
  let ?c2 = "\<lparr>temperature = 8, system_message = TITLE_SYSTEM_PROMPT,
              human_message = selection_prompt st T\<rparr>"
  from assms(2) obtain s where s: "hosted_model env (log @ [?c1]) ?c2 = Inr s" by blast
  have TN: "T \<noteq> []" by (simp add: T_def)
  then obtain t ts where tts: "T = t # ts" by (cases T) auto
  have "title_agent env st log =
     (if strip s \<notin> set T
      then (Inr [Brainstormed_titles T, Selected_title t], log @ [?c1, ?c2])
      else (Inr [Brainstormed_titles T, Selected_title (strip s)], log @ [?c1, ?c2]))"
    unfolding title_agent_def get_llm_built [OF assms(1)] invoke_def
    using s [unfolded T_def] tts [unfolded T_def]
    by (simp add: g Let_def T_def)
  then show ?thesis by (cases "strip s \<notin> set T") auto
qed

lemma content_agent_total:
  assumes "client_failure env = None" and "\<forall>l c. \<exists>r. hosted_model env l c = Inr r"
  shows "\<exists>p l'. content_agent env st log = (Inr p, l')"
proof -
  let ?c = "\<lparr>temperature = 7, system_message = CONTENT_SYSTEM_PROMPT,
             human_message = content_prompt st\<rparr>"
  from assms(2) obtain r where "hosted_model env log ?c = Inr r" by blast
  then show ?thesis by (simp add: content_agent_def get_llm_built [OF assms(1)] invoke_def Let_def)
qed

lemma translation_agent_total:
  assumes "client_failure env = None" and "\<forall>l c. \<exists>r. hosted_model env l c = Inr r"
  shows "\<exists>p l'. translation_agent env st log = (Inr p, l')"
proof (cases "truthy (target_language st)")
  case False
  then show ?thesis by (simp add: translation_agent_def get_llm_built [OF assms(1)] Let_def)
next
  case True
  let ?c = "\<lparr>temperature = 3, system_message = TRANSLATION_SYSTEM_PROMPT,
             human_message = TRANSLATION_PROMPT
               (case target_language st of None \<Rightarrow> [] | Some t \<Rightarrow> t) (blog_content st)\<rparr>"
  from assms(2) obtain r where "hosted_model env log ?c = Inr r" by blast
  with True show ?thesis
    by (simp add: translation_agent_def get_llm_built [OF assms(1)] invoke_def Let_def)
qed

lemma run_contract_total:
  assumes "client_failure env = None" and "\<forall>l c. \<exists>r. hosted_model env l c = Inr r"
  shows "\<exists>st' tr log'. run_contract env st log = (Inr (st', tr), log')"
proof -
  from title_agent_total [OF assms] obtain p1 l1 where
    t: "title_agent env st log = (Inr p1, l1)" by blast
  from content_agent_total [OF assms] obtain p2 l2 where
    c: "content_agent env (merge st p1) l1 = (Inr p2, l2)" by blast
  from translation_agent_total [OF assms] obtain p3 l3 where
    r: "translation_agent env (merge (merge st p1) p2) l2 = (Inr p3, l3)" by blast
  show ?thesis
    by (simp add: run_contract_def t c r Let_def)
qed

lemma run_contract_calls:
  assumes "run_contract env st log = (Inr (st', tr), log')"
  shows "\<exists>cs. log' = log @ cs \<and>
     map temperature cs = [8, 8, 7] @ (if ''translation_agent'' \<in> set tr then [3] else [])"
proof -
  from run_contract_Inr [OF assms] obtain p1 l1 p2 l2 where
    t: "title_agent env st log = (Inr p1, l1)" and
    c: "content_agent env (merge st p1) l1 = (Inr p2, l2)" and
    b: "if should_translate (merge (merge st p1) p2) = ''translate''
        then (\<exists>p3. translation_agent env (merge (merge st p1) p2) l2 = (Inr p3, log')
               \<and> st' = merge (merge (merge st p1) p2) p3)
             \<and> tr = [''title_agent'', ''content_agent'', ''translation_agent'']
        else st' = merge (merge st p1) p2 \<and> log' = l2
             \<and> tr = [''title_agent'', ''content_agent'']"
    by blast
  from title_agent_Inr [OF t] obtain c1 c2 where
    l1: "l1 = log @ [c1, c2]" and t1: "temperature c1 = 8" and t2: "temperature c2 = 8"
    by force
  from content_agent_Inr [OF c] obtain c3 where
    l2: "l2 = l1 @ [c3]" and t3: "temperature c3 = 7"
    by force
  show ?thesis
  proof (cases "should_translate (merge (merge st p1) p2) = ''translate''")
    case True
    with b obtain p3 where
      r: "translation_agent env (merge (merge st p1) p2) l2 = (Inr p3, log')" and
      trace: "tr = [''title_agent'', ''content_agent'', ''translation_agent'']"
      by auto
    have "\<exists>c4. log' = l2 @ [c4] \<and> temperature c4 = 3"
      using r should_translate_truthy [OF True]
      unfolding translation_agent_def get_llm_built [OF translation_agent_returns_built [OF r]]
        invoke_def Let_def
      by (auto split: sum.splits)
    then obtain c4 where "log' = l2 @ [c4]" and "temperature c4 = 3" by blast
    then have "log' = log @ [c1, c2, c3, c4] \<and>
        map temperature [c1, c2, c3, c4] = [8, 8, 7, 3]"
      using l1 l2 t1 t2 t3 by simp
    with trace show ?thesis by (intro exI [of _ "[c1, c2, c3, c4]"]) simp
  next
    case False
    with b have "log' = l2" and trace: "tr = [''title_agent'', ''content_agent'']"
      by auto
    then have "log' = log @ [c1, c2, c3] \<and> map temperature [c1, c2, c3] = [8, 8, 7]"
      using l1 l2 t1 t2 t3 by simp
    with trace show ?thesis by (intro exI [of _ "[c1, c2, c3]"]) simp
  qed
qed

lemma generate_blog_Inr:
  assumes "generate_blog env request log = (Inr resp, log')"
  shows "valid_request request \<and>
     (\<exists>result tr. run_contract env (initial_state request) log = (Inr (result, tr), log')
        \<and> resp = \<lparr>title = selected_title result,
                   content = final_content result,
                   resp_word_count = word_count result,
                   was_translated = truthy (translated_content result),
                   resp_target_language = req_target_language request,
                   resp_brainstormed_titles = brainstormed_titles result\<rparr>)"
  using assms unfolding generate_blog_def invoke_create_workflow
  by (auto split: if_split_asm prod.splits sum.splits)

lemma title_agent_example_mismatch:
  "fst (title_agent (scripted_env replies_mismatch) (initial_state request_plain) []) =
     Inr [Brainstormed_titles [''How to Master Remote Work'', ''7 Secrets of Remote Workers''],
          Selected_title ''How to Master Remote Work'']"
  by (simp add: title_agent_def get_llm_def scripted_env_def invoke_def scripted_def replies_mismatch_def
      parse_titles_example strip_def isspace_def Let_def)

lemma title_agent_example_unparsed:
  "fst (title_agent (scripted_env replies_unparsed) (initial_state request_plain) []) =
     Inr [Brainstormed_titles [''Complete Guide to Remote Work''],
          Selected_title ''Complete Guide to Remote Work'']"
  by (simp add: title_agent_def get_llm_def scripted_env_def invoke_def scripted_def replies_unparsed_def
      initial_state_def request_plain_def eval_defs)

lemma valid_request_examples: "valid_request request_es" "valid_request request_plain"
  by (simp_all add: valid_request_def request_es_def request_plain_def)

lemma generate_blog_fst:
  assumes "valid_request request"
    and "fst (run_contract env (initial_state request) log) = Inr (result, tr)"
  shows "fst (generate_blog env request log) =
     Inr \<lparr>title = selected_title result,
          content = final_content result,
          resp_word_count = word_count result,
          was_translated = truthy (translated_content result),
          resp_target_language = req_target_language request,
          resp_brainstormed_titles = brainstormed_titles result\<rparr>"
proof (cases "run_contract env (initial_state request) log")
  case (Pair a l)
  with assms(2) have "a = Inr (result, tr)" by simp
  with Pair assms(1) show ?thesis
    by (simp add: generate_blog_def invoke_create_workflow)
qed

lemma generate_blog_example_es:
  "fst (generate_blog (scripted_env replies_es) request_es []) =
     Inr \<lparr>title = ''7 Secrets of Remote Workers'',
          content = ''El teletrabajo cambia oficinas.'',
          resp_word_count = 5,
          was_translated = True,
          resp_target_language = Some ''Spanish'',
          resp_brainstormed_titles =
            [''How to Master Remote Work'', ''7 Secrets of Remote Workers'']\<rparr>"
  using generate_blog_fst [OF valid_request_examples(1) run_example_es]
  by (simp add: final_state_es_def request_es_def)

lemma parse_lines_filter:
  "parse_lines ls titles =
     titles @ filter (\<lambda>t. t \<noteq> []) (map remove_numbering (filter begins_with_digit (map strip ls)))"
  by (induction ls arbitrary: titles) (simp_all add: Let_def)

lemma isdigit_not_marker: "isdigit c \<Longrightarrow> c \<noteq> CHR ''.'' \<and> c \<noteq> CHR '')''"
  by (auto simp add: isdigit_def)

lemma split1_absent: "sep \<notin> set s \<Longrightarrow> split1 sep s = [s]"
proof -
  assume "sep \<notin> set s"
  then have d: "dropWhile (\<lambda>c. c \<noteq> sep) s = []"
    by (simp add: dropWhile_eq_Nil_conv) blast
  show ?thesis unfolding split1_def d by simp
qed

lemma split1_first: "sep \<notin> set a \<Longrightarrow> split1 sep (a @ sep # b) = [a, b]"
proof -
  assume n: "sep \<notin> set a"
  then have d: "dropWhile (\<lambda>c. c \<noteq> sep) (a @ sep # b) = sep # b"
    by (subst dropWhile_append2) auto
  from n have t: "takeWhile (\<lambda>c. c \<noteq> sep) (a @ sep # b) = a"
    by (subst takeWhile_append2) auto
  show ?thesis by (simp add: split1_def d t)
qed

lemma begins_with_digit_marked:
  assumes "n \<noteq> []" and "list_all isdigit n"
  shows "begins_with_digit (n @ m # rest)"
  using assms by (cases n) (simp_all add: begins_with_digit_def)

lemma remove_numbering_dot:
  assumes "list_all isdigit n" and "CHR '')'' \<notin> set rest"
  shows "remove_numbering (n @ CHR ''.'' # rest) = strip rest"
proof -
  from assms(1) have nd: "CHR ''.'' \<notin> set n"
    using isdigit_not_marker unfolding list_all_iff by blast
  show ?thesis
    by (simp add: remove_numbering_def split1_first [OF nd] split1_absent [OF assms(2)])
qed

lemma remove_numbering_paren:
  assumes "list_all isdigit n" and "CHR ''.'' \<notin> set rest"
  shows "remove_numbering (n @ CHR '')'' # rest) = strip rest"
proof -
  from assms(1) have nd: "CHR ''.'' \<notin> set n" and np: "CHR '')'' \<notin> set n"
    using isdigit_not_marker unfolding list_all_iff by blast+
  have "CHR ''.'' \<notin> set (n @ CHR '')'' # rest)"
    using nd assms(2) by simp
  then have "split1 CHR ''.'' (n @ CHR '')'' # rest) = [n @ CHR '')'' # rest]"
    by (rule split1_absent)
  then show ?thesis
    by (simp add: remove_numbering_def split1_first [OF np])
qed

lemma remove_numbering_unmarked:
  assumes "CHR ''.'' \<notin> set line" and "CHR '')'' \<notin> set line"
  shows "remove_numbering line = strip line"
  by (simp add: remove_numbering_def split1_absent [OF assms(1)] split1_absent [OF assms(2)])

text \<open>
  What the marker stripping does to a title that itself holds a "." or a ")": it cuts
  the title at the first of them.
\<close>

lemma remove_numbering_cuts_title:
  "parse_titles ''1. How AI (Artificial Intelligence) Works'' = [''Works'']"
  "parse_titles ''1) Why Node.js Rocks'' = [''js Rocks'']"
  by (simp_all add: eval_defs)

lemma generate_blog_example_blank:
  "fst (generate_blog (scripted_env replies_blank_translation) request_es []) =
     Inr \<lparr>title = ''7 Secrets of Remote Workers'',
          content = [],
          resp_word_count = 5,
          was_translated = False,
          resp_target_language = Some ''Spanish'',
          resp_brainstormed_titles =
            [''How to Master Remote Work'', ''7 Secrets of Remote Workers'']\<rparr>"
  using generate_blog_fst [OF valid_request_examples(1) run_example_blank]
  by (simp add: final_state_blank_def request_es_def)

subsection \<open>The specified properties\<close>

text \<open>
  C3: \<open>should_translate\<close> is a function of the state alone. It returns "translate"
  exactly when \<open>target_language\<close> is present and non-empty after trimming whitespace,
  and the skip label "end" otherwise; so "translate" for "Spanish", and "end" for
  \<open>None\<close> and for the whitespace-only "   ".
\<close>

theorem should_translate_iff:
  "should_translate st =
     (if (\<exists>s. target_language st = Some s \<and> strip s \<noteq> []) then ''translate'' else ''end'')
   \<and> should_translate (st\<lparr>target_language := Some ''Spanish''\<rparr>) = ''translate''
   \<and> should_translate (st\<lparr>target_language := None\<rparr>) = ''end''
   \<and> should_translate (st\<lparr>target_language := Some ''   ''\<rparr>) = ''end''"
proof -
  have general: "should_translate st =
     (if (\<exists>s. target_language st = Some s \<and> strip s \<noteq> []) then ''translate'' else ''end'')"
  proof (cases "target_language st")
    case None
    then show ?thesis by (simp add: should_translate_def)
  next
    case (Some s)
    then show ?thesis
      by (cases "s = []") (simp_all add: should_translate_def strip_Nil)
  qed
  have spanish: "strip ''Spanish'' = ''Spanish''"
    by (simp add: strip_def isspace_def)
  have blank: "strip ''   '' = []"
    by (simp add: strip_def isspace_def)
  show ?thesis
    using general spanish blank by (simp add: should_translate_def)
qed

text \<open>
  C1: in every run of the workflow that reaches its end, \<open>final_content\<close> has been set
  on the way, whichever branch was taken: the same end state is reached from any initial
  value of the field. It equals \<open>blog_content\<close> unless the translation step ran, and
  then it equals \<open>translated_content\<close>.
\<close>

theorem final_content_set_at_end:
  assumes "invoke_graph create_workflow env st log = (Inr (st', tr), log')"
  shows "(if ''translation_agent'' \<in> set tr
          then translated_content st' = Some (final_content st')
          else final_content st' = blog_content st')
       \<and> invoke_graph create_workflow env (st\<lparr>final_content := x\<rparr>) log
           = (Inr (st', tr), log')"
proof -
  have run: "run_contract env st log = (Inr (st', tr), log')"
    using assms by (simp add: invoke_create_workflow)
  from run_contract_result [OF run]
  have "if should_translate st' = ''translate''
        then tr = [''title_agent'', ''content_agent'', ''translation_agent'']
             \<and> (\<exists>r'. translated_content st' = Some (strip r') \<and> final_content st' = strip r')
        else tr = [''title_agent'', ''content_agent''] \<and> final_content st' = blog_content st'"
    by (auto split: if_split_asm)
  then have branch: "if ''translation_agent'' \<in> set tr
          then translated_content st' = Some (final_content st')
          else final_content st' = blog_content st'"
    by (auto split: if_split_asm)
  have "invoke_graph create_workflow env (st\<lparr>final_content := x\<rparr>) log
          = (Inr (st', tr), log')"
    using run by (simp add: invoke_create_workflow run_contract_ignores_final_content)
  with branch show ?thesis by simp
qed

theorem final_content_set_at_end_witness:
  "fst (invoke_graph create_workflow (scripted_env replies_es) (initial_state request_es) []) =
     Inr (final_state_es, [''title_agent'', ''content_agent'', ''translation_agent''])
   \<and> translated_content final_state_es = Some (final_content final_state_es)
   \<and> fst (invoke_graph create_workflow (scripted_env replies_es) (initial_state request_plain) []) =
     Inr (final_state_plain, [''title_agent'', ''content_agent''])
   \<and> final_content final_state_plain = blog_content final_state_plain"
proof -
  let ?es = "invoke_graph create_workflow (scripted_env replies_es) (initial_state request_es) []"
  let ?pl = "invoke_graph create_workflow (scripted_env replies_es) (initial_state request_plain) []"
  have a: "fst ?es = Inr (final_state_es, [''title_agent'', ''content_agent'',
                     ''translation_agent''])"
    using run_example_es by (simp add: invoke_create_workflow)
  have b: "fst ?pl = Inr (final_state_plain, [''title_agent'', ''content_agent''])"
    using run_example_plain by (simp add: invoke_create_workflow)
  have es: "?es = (Inr (final_state_es, [''title_agent'', ''content_agent'',
                     ''translation_agent'']), snd ?es)"
    using a by (simp add: prod_eq_iff)
  have pl: "?pl = (Inr (final_state_plain, [''title_agent'', ''content_agent'']), snd ?pl)"
    using b by (simp add: prod_eq_iff)
  show ?thesis
    using final_content_set_at_end [OF es] final_content_set_at_end [OF pl] a b
    by simp
qed

text \<open>
  C2: for every initial state, running the compiled graph is the contract of "run": the
  title step once, then the content step once, then the branch decision on the state
  merged so far, then the translation step once exactly when the decision is
  "translate"; the merged state is returned. A run that returns has made the steps'
  model calls once each, in that order (two for the title, one for the content, one for
  the translation), and a run whose client is built and whose model calls all succeed
  returns. A client that cannot be built or a failing call ends the run with its error:
  nothing is retried.
\<close>

theorem run_applies_steps_in_order:
  "invoke_graph create_workflow env st log = run_contract env st log
   \<and> (\<forall>st' tr log'. invoke_graph create_workflow env st log = (Inr (st', tr), log') \<longrightarrow>
        (\<exists>p1 l1 p2 l2. title_agent env st log = (Inr p1, l1)
           \<and> content_agent env (merge st p1) l1 = (Inr p2, l2)
           \<and> (if should_translate (merge (merge st p1) p2) = ''translate''
               then (\<exists>p3. translation_agent env (merge (merge st p1) p2) l2 = (Inr p3, log')
                      \<and> st' = merge (merge (merge st p1) p2) p3)
                    \<and> tr = [''title_agent'', ''content_agent'', ''translation_agent'']
               else st' = merge (merge st p1) p2 \<and> log' = l2
                    \<and> tr = [''title_agent'', ''content_agent'']))
        \<and> (\<exists>cs. log' = log @ cs \<and>
              map temperature cs =
                [8, 8, 7] @ (if ''translation_agent'' \<in> set tr then [3] else [])))
   \<and> (client_failure env = None \<and> (\<forall>l c. \<exists>r. hosted_model env l c = Inr r) \<longrightarrow>
        (\<exists>st' tr log'. invoke_graph create_workflow env st log = (Inr (st', tr), log')))"
  using run_contract_Inr [of env st log] run_contract_calls [of env st log]
    run_contract_total [of env st log]
  unfolding invoke_create_workflow
  by blast

theorem run_applies_steps_in_order_witness:
  "fst (invoke_graph create_workflow (scripted_env replies_es) (initial_state request_es) []) =
     Inr (final_state_es, [''title_agent'', ''content_agent'', ''translation_agent''])
   \<and> map temperature
       (snd (invoke_graph create_workflow (scripted_env replies_es) (initial_state request_es) []))
     = [8, 8, 7, 3]
   \<and> fst (invoke_graph create_workflow (scripted_env replies_es) (initial_state request_plain) []) =
     Inr (final_state_plain, [''title_agent'', ''content_agent''])
   \<and> map temperature
       (snd (invoke_graph create_workflow (scripted_env replies_es) (initial_state request_plain) []))
     = [8, 8, 7]"
proof -
  let ?es = "invoke_graph create_workflow (scripted_env replies_es) (initial_state request_es) []"
  let ?pl = "invoke_graph create_workflow (scripted_env replies_es) (initial_state request_plain) []"
  note es_thm = run_applies_steps_in_order [of "scripted_env replies_es" "initial_state request_es" "[]"]
  note pl_thm = run_applies_steps_in_order [of "scripted_env replies_es" "initial_state request_plain" "[]"]
  have a: "fst ?es = Inr (final_state_es, [''title_agent'', ''content_agent'',
                     ''translation_agent''])"
    using es_thm run_example_es by simp
  have b: "fst ?pl = Inr (final_state_plain, [''title_agent'', ''content_agent''])"
    using pl_thm run_example_plain by simp
  have es: "?es = (Inr (final_state_es, [''title_agent'', ''content_agent'',
                     ''translation_agent'']), snd ?es)"
    using a by (simp add: prod_eq_iff)
  have pl: "?pl = (Inr (final_state_plain, [''title_agent'', ''content_agent'']), snd ?pl)"
    using b by (simp add: prod_eq_iff)
  from es_thm es have "\<exists>cs. snd ?es = [] @ cs \<and> map temperature cs =
      [8, 8, 7] @ (if ''translation_agent'' \<in> set [''title_agent'', ''content_agent'',
                     ''translation_agent''] then [3] else [])"
    by blast
  then have c: "map temperature (snd ?es) = [8, 8, 7, 3]" by auto
  from pl_thm pl have "\<exists>cs. snd ?pl = [] @ cs \<and> map temperature cs =
      [8, 8, 7] @ (if ''translation_agent'' \<in> set [''title_agent'', ''content_agent''] then [3] else [])"
    by blast
  then have d: "map temperature (snd ?pl) = [8, 8, 7]" by auto
  show ?thesis using a b c d by simp
qed



text \<open>
  C7: when the parser extracts no candidate from the model's reply to the generation
  instruction, \<open>brainstormed_titles\<close> is the one-element list holding
  "Complete Guide to " followed by the topic, and \<open>selected_title\<close> is that title.
\<close>

theorem fallback_title_when_none_parsed:
  assumes "title_agent env st log = (Inr p, log')"
    and "hosted_model env log \<lparr>temperature = 8, system_message = TITLE_SYSTEM_PROMPT,
                    human_message = generation_prompt st\<rparr> = Inr g"
    and "parse_titles g = []"
  shows "brainstormed_titles (merge st p) = [''Complete Guide to '' @ topic st]
       \<and> selected_title (merge st p) = ''Complete Guide to '' @ topic st"
proof -
  from title_agent_Inr [OF assms(1)] obtain g' s T where
    g': "hosted_model env log \<lparr>temperature = 8, system_message = TITLE_SYSTEM_PROMPT,
                     human_message = generation_prompt st\<rparr> = Inr g'" and
    T: "T = (if parse_titles g' = [] then [''Complete Guide to '' @ topic st]
             else parse_titles g')" and
    p: "p = [Brainstormed_titles T,
             Selected_title (if strip s \<in> set T then strip s else hd T)]"
    by blast
  from g' assms(2) have "g' = g" by simp
  with T assms(3) have T': "T = [''Complete Guide to '' @ topic st]" by simp
  show ?thesis
    by (simp add: p T' merge_Cons merge_Nil)
qed

theorem fallback_title_when_none_parsed_witness:
  "fst (title_agent (scripted_env replies_unparsed) (initial_state request_plain) []) =
     Inr [Brainstormed_titles [''Complete Guide to Remote Work''],
          Selected_title ''Complete Guide to Remote Work'']
   \<and> hosted_model (scripted_env replies_unparsed) [] \<lparr>temperature = 8, system_message = TITLE_SYSTEM_PROMPT,
        human_message = generation_prompt (initial_state request_plain)\<rparr>
       = Inr ''Sorry, no list today''
   \<and> parse_titles ''Sorry, no list today'' = []
   \<and> brainstormed_titles (merge (initial_state request_plain)
        [Brainstormed_titles [''Complete Guide to Remote Work''],
         Selected_title ''Complete Guide to Remote Work''])
       = [''Complete Guide to '' @ topic (initial_state request_plain)]
   \<and> selected_title (merge (initial_state request_plain)
        [Brainstormed_titles [''Complete Guide to Remote Work''],
         Selected_title ''Complete Guide to Remote Work''])
       = ''Complete Guide to '' @ topic (initial_state request_plain)"
proof -
  let ?r = "title_agent (scripted_env replies_unparsed) (initial_state request_plain) []"
  have e: "?r = (Inr [Brainstormed_titles [''Complete Guide to Remote Work''],
                      Selected_title ''Complete Guide to Remote Work''], snd ?r)"
    using title_agent_example_unparsed by (simp add: prod_eq_iff)
  have m: "hosted_model (scripted_env replies_unparsed) [] \<lparr>temperature = 8, system_message = TITLE_SYSTEM_PROMPT,
        human_message = generation_prompt (initial_state request_plain)\<rparr>
       = Inr ''Sorry, no list today''"
    by (simp add: scripted_env_def scripted_def replies_unparsed_def)
  have n: "parse_titles ''Sorry, no list today'' = []"
    by (simp add: eval_defs)
  from fallback_title_when_none_parsed [OF e m n] title_agent_example_unparsed m n
  show ?thesis by blast
qed

text \<open>
  C10: after the title step every element of \<open>brainstormed_titles\<close> is a non-empty
  string, and so is \<open>selected_title\<close>; hence the \<open>title\<close> of every response of the
  generation endpoint is non-empty, and so are its \<open>brainstormed_titles\<close>.
\<close>

theorem titles_are_nonempty:
  "(title_agent env st log = (Inr p, log') \<longrightarrow>
      list_all (\<lambda>t. t \<noteq> []) (brainstormed_titles (merge st p))
      \<and> selected_title (merge st p) \<noteq> [])
   \<and> (generate_blog env request log = (Inr resp, log'') \<longrightarrow>
      title resp \<noteq> [] \<and> list_all (\<lambda>t. t \<noteq> []) (resp_brainstormed_titles resp))"
proof (intro conjI impI)
  assume t: "title_agent env st log = (Inr p, log')"
  from title_agent_Inr [OF t] obtain g s T where
    T: "T = (if parse_titles g = [] then [''Complete Guide to '' @ topic st]
             else parse_titles g)" and TN: "T \<noteq> []" and
    p: "p = [Brainstormed_titles T,
             Selected_title (if strip s \<in> set T then strip s else hd T)]"
    by blast
  have all: "list_all (\<lambda>t. t \<noteq> []) T"
    using parse_titles_nonempty [of g] by (simp add: T)
  have "(if strip s \<in> set T then strip s else hd T) \<in> set T"
    using TN by simp
  with all have sel: "(if strip s \<in> set T then strip s else hd T) \<noteq> []"
    unfolding list_all_iff by blast
  show "list_all (\<lambda>t. t \<noteq> []) (brainstormed_titles (merge st p))"
    using all by (simp add: p merge_Cons merge_Nil)
  show "selected_title (merge st p) \<noteq> []"
    using sel by (simp add: p merge_Cons merge_Nil)
next
  assume gb: "generate_blog env request log = (Inr resp, log'')"
  from generate_blog_Inr [OF gb] obtain result tr where
    run: "run_contract env (initial_state request) log = (Inr (result, tr), log'')" and
    resp: "title resp = selected_title result"
          "resp_brainstormed_titles resp = brainstormed_titles result"
    by auto
  from run_contract_result [OF run] obtain g s where
    B: "brainstormed_titles result =
          (if parse_titles g = [] then [''Complete Guide to '' @ topic (initial_state request)]
           else parse_titles g)" and
    BN: "brainstormed_titles result \<noteq> []" and
    S: "selected_title result =
          (if strip s \<in> set (brainstormed_titles result) then strip s
           else hd (brainstormed_titles result))"
    by blast
  have all: "list_all (\<lambda>t. t \<noteq> []) (brainstormed_titles result)"
    using parse_titles_nonempty [of g] by (simp add: B)
  have "selected_title result \<in> set (brainstormed_titles result)"
    using BN by (simp add: S)
  with all have "selected_title result \<noteq> []"
    unfolding list_all_iff by blast
  then show "title resp \<noteq> []" by (simp add: resp)
  show "list_all (\<lambda>t. t \<noteq> []) (resp_brainstormed_titles resp)"
    using all by (simp add: resp)
qed

theorem titles_are_nonempty_witness:
  "fst (title_agent (scripted_env replies_mismatch) (initial_state request_plain) []) =
     Inr [Brainstormed_titles [''How to Master Remote Work'', ''7 Secrets of Remote Workers''],
          Selected_title ''How to Master Remote Work'']
   \<and> list_all (\<lambda>t. t \<noteq> []) (brainstormed_titles (merge (initial_state request_plain)
        [Brainstormed_titles [''How to Master Remote Work'', ''7 Secrets of Remote Workers''],
         Selected_title ''How to Master Remote Work'']))
   \<and> selected_title (merge (initial_state request_plain)
        [Brainstormed_titles [''How to Master Remote Work'', ''7 Secrets of Remote Workers''],
         Selected_title ''How to Master Remote Work'']) \<noteq> []
   \<and> map_sum id title (fst (generate_blog (scripted_env replies_es) request_es [])) =
       Inr ''7 Secrets of Remote Workers''
   \<and> ''7 Secrets of Remote Workers'' \<noteq> []"
proof -
  let ?r = "title_agent (scripted_env replies_mismatch) (initial_state request_plain) []"
  let ?g = "generate_blog (scripted_env replies_es) request_es []"
  have e: "?r = (Inr [Brainstormed_titles [''How to Master Remote Work'',
                        ''7 Secrets of Remote Workers''],
                      Selected_title ''How to Master Remote Work''], snd ?r)"
    using title_agent_example_mismatch by (simp add: prod_eq_iff)
  obtain resp where resp: "fst ?g = Inr resp" and ti: "title resp = ''7 Secrets of Remote Workers''"
    using generate_blog_example_es by simp
  then have g: "?g = (Inr resp, snd ?g)" by (simp add: prod_eq_iff)
  note inst1 = titles_are_nonempty [where env = "scripted_env replies_mismatch"
      and st = "initial_state request_plain" and log = "[]" and log' = "snd ?r"]
  note inst2 = titles_are_nonempty [where env = "scripted_env replies_es"
      and request = request_es and log = "[]" and resp = resp and log'' = "snd ?g"]
  from inst1 e have a: "list_all (\<lambda>t. t \<noteq> []) (brainstormed_titles (merge (initial_state request_plain)
        [Brainstormed_titles [''How to Master Remote Work'', ''7 Secrets of Remote Workers''],
         Selected_title ''How to Master Remote Work'']))
   \<and> selected_title (merge (initial_state request_plain)
        [Brainstormed_titles [''How to Master Remote Work'', ''7 Secrets of Remote Workers''],
         Selected_title ''How to Master Remote Work'']) \<noteq> []"
    by blast
  from inst2 g have "title resp \<noteq> []" by blast
  with ti have b: "''7 Secrets of Remote Workers'' \<noteq> []" by simp
  have c: "map_sum id title (fst ?g) = Inr ''7 Secrets of Remote Workers''"
    using resp ti by simp
  from a b c title_agent_example_mismatch show ?thesis by blast
qed

text \<open>
  C6, as amended: the candidates the parser keeps are, in order, the non-empty results of
  the marker stripping on those trimmed lines of the trimmed reply that begin with a
  digit. On a line made of digits, a "." and a remainder that holds no ")", the marker
  stripping gives the trimmed remainder, whatever further "." it holds; on a line made of
  digits, a ")" and a remainder that holds no ".", it gives the trimmed remainder,
  whatever further ")" it holds; on a line that holds neither character it gives the
  trimmed line.
\<close>

theorem parse_titles_numbered_lines:
  "parse_titles reply =
     filter (\<lambda>t. t \<noteq> [])
       (map remove_numbering
         (filter begins_with_digit (map strip (split_sep CHR ''\<newline>'' (strip reply)))))
   \<and> (n \<noteq> [] \<and> list_all isdigit n \<and> CHR '')'' \<notin> set rest \<longrightarrow>
      begins_with_digit (n @ CHR ''.'' # rest)
      \<and> remove_numbering (n @ CHR ''.'' # rest) = strip rest)
   \<and> (n \<noteq> [] \<and> list_all isdigit n \<and> CHR ''.'' \<notin> set rest \<longrightarrow>
      begins_with_digit (n @ CHR '')'' # rest)
      \<and> remove_numbering (n @ CHR '')'' # rest) = strip rest)
   \<and> (CHR ''.'' \<notin> set line \<and> CHR '')'' \<notin> set line \<longrightarrow> remove_numbering line = strip line)"
  using remove_numbering_dot [of n rest] remove_numbering_paren [of n rest]
    begins_with_digit_marked [of n] remove_numbering_unmarked [of line]
  by (simp add: parse_titles_def parse_lines_filter)

theorem parse_titles_numbered_lines_witness:
  "parse_titles titles_reply = [''How to Master Remote Work'', ''7 Secrets of Remote Workers'']
   \<and> list_all isdigit ''1''
   \<and> CHR '')'' \<notin> set '' Top 5 Node.js Tips vs. Deno''
   \<and> begins_with_digit ''1. Top 5 Node.js Tips vs. Deno''
   \<and> remove_numbering ''1. Top 5 Node.js Tips vs. Deno'' = ''Top 5 Node.js Tips vs. Deno''
   \<and> CHR ''.'' \<notin> set '' Why Teams Fail (and How to Fix It)''
   \<and> begins_with_digit ''1) Why Teams Fail (and How to Fix It)''
   \<and> remove_numbering ''1) Why Teams Fail (and How to Fix It)''
       = ''Why Teams Fail (and How to Fix It)''
   \<and> CHR ''.'' \<notin> set ''10 Ways to Win'' \<and> CHR '')'' \<notin> set ''10 Ways to Win''
   \<and> remove_numbering ''10 Ways to Win'' = ''10 Ways to Win''"
proof -
  have a: "''1'' \<noteq> [] \<and> list_all isdigit ''1''" by (simp add: isdigit_def)
  have b: "CHR '')'' \<notin> set '' Top 5 Node.js Tips vs. Deno''" by simp
  have c: "CHR ''.'' \<notin> set '' Why Teams Fail (and How to Fix It)''" by simp
  have d: "CHR ''.'' \<notin> set ''10 Ways to Win'' \<and> CHR '')'' \<notin> set ''10 Ways to Win''" by simp
  have s1: "strip '' Top 5 Node.js Tips vs. Deno'' = ''Top 5 Node.js Tips vs. Deno''"
    by (simp add: strip_def isspace_def)
  have s2: "strip '' Why Teams Fail (and How to Fix It)'' = ''Why Teams Fail (and How to Fix It)''"
    by (simp add: strip_def isspace_def)
  have s3: "strip ''10 Ways to Win'' = ''10 Ways to Win''"
    by (simp add: strip_def isspace_def)
  note dot = parse_titles_numbered_lines [where reply = titles_reply and n = "''1''"
      and rest = "'' Top 5 Node.js Tips vs. Deno''" and line = "''10 Ways to Win''"]
  note paren = parse_titles_numbered_lines [where reply = titles_reply and n = "''1''"
      and rest = "'' Why Teams Fail (and How to Fix It)''" and line = "''10 Ways to Win''"]
  from dot a b have e: "begins_with_digit ''1. Top 5 Node.js Tips vs. Deno''
      \<and> remove_numbering ''1. Top 5 Node.js Tips vs. Deno'' = ''Top 5 Node.js Tips vs. Deno''"
    by (simp add: s1)
  from paren a c have f: "begins_with_digit ''1) Why Teams Fail (and How to Fix It)''
      \<and> remove_numbering ''1) Why Teams Fail (and How to Fix It)''
          = ''Why Teams Fail (and How to Fix It)''"
    by (simp add: s2)
  from dot d have g: "remove_numbering ''10 Ways to Win'' = ''10 Ways to Win''"
    by (simp add: s3)
  from a b c d e f g parse_titles_example show ?thesis by simp
qed

text \<open>
  C6 as stated fails: of the two lines of the first reply, both beginning with a digit,
  only one is kept, "1." leaving nothing after its marker. The marker stripping also cuts
  at a ")" after the marker "2.", at a "." after the marker "1)", and at a "." in a line
  that begins with a digit and has no marker: the second title is lost whole, the third
  and the fourth lose their beginning.
\<close>

theorem parse_titles_counterexample:
  "map strip (split_sep CHR ''\<newline>'' (strip ''1.\<newline>2. Real Title'')) = [''1.'', ''2. Real Title'']
   \<and> begins_with_digit ''1.''
   \<and> parse_titles ''1.\<newline>2. Real Title'' = [''Real Title'']
   \<and> parse_titles ''2. Why Teams Fail (and How to Fix It)'' = []
   \<and> parse_titles ''1) Why Node.js Rocks'' = [''js Rocks'']
   \<and> parse_titles ''10 Ways to Win. Now'' = [''Now'']"
  by (simp add: eval_defs)

text \<open>
  C4, as amended: when \<open>target_language\<close> is absent or empty and the client can be built,
  the translation step called directly returns at once, with no model call (the log of
  calls is unchanged), a patch whose \<open>translated_content\<close> is absent and whose
  \<open>final_content\<close> is the state's \<open>blog_content\<close>; merging it leaves \<open>final_content\<close>
  as it was whenever that was the \<open>blog_content\<close> already, as it is after the content
  step.
\<close>

theorem translation_agent_guard:
  assumes "target_language st = None \<or> target_language st = Some []"
    and "get_llm env 3 = Inr llm"
  shows "translation_agent env st log =
           (Inr [Translated_content None, Final_content (blog_content st)], log)
       \<and> translated_content
           (merge st [Translated_content None, Final_content (blog_content st)]) = None
       \<and> final_content
           (merge st [Translated_content None, Final_content (blog_content st)]) = blog_content st
       \<and> (final_content st = blog_content st \<longrightarrow>
            final_content
              (merge st [Translated_content None, Final_content (blog_content st)])
            = final_content st)"
proof -
  from assms(1) have "\<not> truthy (target_language st)" by auto
  then have "translation_agent env st log =
           (Inr [Translated_content None, Final_content (blog_content st)], log)"
    by (simp add: translation_agent_def assms(2) Let_def)
  then show ?thesis by (simp add: merge_Cons merge_Nil)
qed

theorem translation_agent_guard_witness:
  "(target_language direct_state = None \<or> target_language direct_state = Some [])
   \<and> get_llm (scripted_env [''Algo'']) 3 = Inr (scripted [''Algo''])
   \<and> translation_agent (scripted_env [''Algo'']) direct_state [] =
       (Inr [Translated_content None, Final_content ''Some content''], [])
   \<and> translated_content
       (merge direct_state [Translated_content None, Final_content ''Some content'']) = None
   \<and> final_content
       (merge direct_state [Translated_content None, Final_content ''Some content''])
       = ''Some content''"
proof -
  have h: "target_language direct_state = None \<or> target_language direct_state = Some []"
    by (simp add: direct_state_def initial_state_def request_plain_def)
  have c: "get_llm (scripted_env [''Algo'']) 3 = Inr (scripted [''Algo''])"
    by (simp add: get_llm_def scripted_env_def)
  have b: "blog_content direct_state = ''Some content''"
    by (simp add: direct_state_def)
  from translation_agent_guard [OF h c, of "[]"] h c
  show ?thesis unfolding b by blast
qed

text \<open>
  C4 as stated fails. Called on a state without a target language whose \<open>final_content\<close>
  is still empty, the step returns a patch that changes \<open>final_content\<close> to the
  \<open>blog_content\<close>. Called on the same state where the client cannot be built, it does
  not return a patch: building the client comes before the guard, and its error ends the
  step. Called on a state whose target language is three blanks, it does not return at
  once: it calls the model and returns the reply as the translation.
\<close>

theorem translation_agent_guard_counterexample:
  "target_language direct_state = None
   \<and> final_content direct_state = []
   \<and> translation_agent (scripted_env [''Algo'']) direct_state [] =
       (Inr [Translated_content None, Final_content ''Some content''], [])
   \<and> final_content
       (merge direct_state [Translated_content None, Final_content ''Some content''])
       = ''Some content''
   \<and> translation_agent no_credentials direct_state [] =
       (Inl (ClientError ''no credentials''), [])
   \<and> target_language direct_state_blank = Some ''   ''
   \<and> fst (translation_agent (scripted_env [''Algo'']) direct_state_blank []) =
       Inr [Translated_content (Some ''Algo''), Final_content ''Algo'']
   \<and> length (snd (translation_agent (scripted_env [''Algo'']) direct_state_blank [])) = 1"
  by (simp add: direct_state_blank_def direct_state_def initial_state_def request_plain_def
      translation_agent_def get_llm_def scripted_env_def no_credentials_def invoke_def
      scripted_def merge_Cons merge_Nil strip_def isspace_def Let_def)

text \<open>
  C8: in every run, \<open>word_count\<close> is the number of whitespace-delimited tokens of
  \<open>blog_content\<close>, the trimmed reply to the content step's call, and it is the value the
  content step merged: the translation step does not change it. So the response's
  \<open>word_count\<close> counts the tokens of \<open>blog_content\<close>, while its \<open>content\<close> is
  \<open>final_content\<close>, the translation in a translated run; there is a translated run in
  which \<open>word_count\<close> is not the token count of \<open>content\<close>.
\<close>

theorem word_count_counts_blog_content:
  "(invoke_graph create_workflow env st log = (Inr (st', tr), log') \<longrightarrow>
      word_count st' = int (count_tokens (blog_content st'))
      \<and> (\<exists>p1 l1 p2 l2 r.
            title_agent env st log = (Inr p1, l1)
            \<and> content_agent env (merge st p1) l1 = (Inr p2, l2)
            \<and> hosted_model env l1 \<lparr>temperature = 7, system_message = CONTENT_SYSTEM_PROMPT,
                        human_message = content_prompt (merge st p1)\<rparr> = Inr r
            \<and> blog_content st' = strip r
            \<and> blog_content st' = blog_content (merge (merge st p1) p2)
            \<and> word_count st' = word_count (merge (merge st p1) p2)))
   \<and> (generate_blog env request log = (Inr resp, log'') \<longrightarrow>
      (\<exists>result tr.
          invoke_graph create_workflow env (initial_state request) log
            = (Inr (result, tr), log'')
          \<and> resp_word_count resp = int (count_tokens (blog_content result))
          \<and> content resp = final_content result
          \<and> (if ''translation_agent'' \<in> set tr
              then translated_content result = Some (content resp)
              else content resp = blog_content result)))
   \<and> (\<exists>env request resp log'.
          generate_blog env request [] = (Inr resp, log')
          \<and> was_translated resp
          \<and> resp_word_count resp \<noteq> int (count_tokens (content resp)))"
proof (intro conjI impI)
  assume "invoke_graph create_workflow env st log = (Inr (st', tr), log')"
  then have run: "run_contract env st log = (Inr (st', tr), log')"
    by (simp add: invoke_create_workflow)
  from run_contract_Inr [OF run] obtain p1 l1 p2 l2 where
    t: "title_agent env st log = (Inr p1, l1)" and
    c: "content_agent env (merge st p1) l1 = (Inr p2, l2)" and
    b: "if should_translate (merge (merge st p1) p2) = ''translate''
        then (\<exists>p3. translation_agent env (merge (merge st p1) p2) l2 = (Inr p3, log')
               \<and> st' = merge (merge (merge st p1) p2) p3)
             \<and> tr = [''title_agent'', ''content_agent'', ''translation_agent'']
        else st' = merge (merge st p1) p2 \<and> log' = l2
             \<and> tr = [''title_agent'', ''content_agent'']"
    by blast
  from content_agent_Inr [OF c] obtain r where
    m: "hosted_model env l1 \<lparr>temperature = 7, system_message = CONTENT_SYSTEM_PROMPT,
                  human_message = content_prompt (merge st p1)\<rparr> = Inr r" and
    p2: "p2 = [Blog_content (strip r), Word_count (int (length (split_ws (strip r)))),
               Final_content (strip r)]"
    by blast
  let ?st2 = "merge (merge st p1) p2"
  have st2: "blog_content ?st2 = strip r" "word_count ?st2 = int (count_tokens (strip r))"
    by (simp_all add: p2 merge_Cons merge_Nil length_split_ws)
  have keep: "blog_content st' = blog_content ?st2 \<and> word_count st' = word_count ?st2"
  proof (cases "should_translate ?st2 = ''translate''")
    case True
    with b obtain p3 where
      r3: "translation_agent env ?st2 l2 = (Inr p3, log')" and st': "st' = merge ?st2 p3"
      by auto
    from translation_agent_Inr [OF r3 should_translate_truthy [OF True]] obtain r' where
      "p3 = [Translated_content (Some (strip r')), Final_content (strip r')]"
      by blast
    then show ?thesis by (simp add: st' merge_Cons merge_Nil)
  next
    case False
    with b show ?thesis by simp
  qed
  show "word_count st' = int (count_tokens (blog_content st'))"
    using keep st2 by simp
  show "\<exists>p1 l1 p2 l2 r.
            title_agent env st log = (Inr p1, l1)
            \<and> content_agent env (merge st p1) l1 = (Inr p2, l2)
            \<and> hosted_model env l1 \<lparr>temperature = 7, system_message = CONTENT_SYSTEM_PROMPT,
                        human_message = content_prompt (merge st p1)\<rparr> = Inr r
            \<and> blog_content st' = strip r
            \<and> blog_content st' = blog_content (merge (merge st p1) p2)
            \<and> word_count st' = word_count (merge (merge st p1) p2)"
    using t c m keep st2 by auto
next
  assume gb: "generate_blog env request log = (Inr resp, log'')"
  from generate_blog_Inr [OF gb] obtain result tr where
    run: "run_contract env (initial_state request) log = (Inr (result, tr), log'')" and
    resp: "resp_word_count resp = word_count result" "content resp = final_content result"
    by auto
  from run_contract_result [OF run] obtain r where
    bc: "blog_content result = strip r" and
    wc: "word_count result = int (length (split_ws (strip r)))" and
    br: "if should_translate result = ''translate''
         then tr = [''title_agent'', ''content_agent'', ''translation_agent'']
              \<and> (\<exists>r'. translated_content result = Some (strip r')
                    \<and> final_content result = strip r')
         else tr = [''title_agent'', ''content_agent'']
              \<and> final_content result = blog_content result"
    by (auto split: if_split_asm)
  have "if ''translation_agent'' \<in> set tr
        then translated_content result = Some (content resp)
        else content resp = blog_content result"
    using br resp by (auto split: if_split_asm)
  then show "\<exists>result tr.
          invoke_graph create_workflow env (initial_state request) log
            = (Inr (result, tr), log'')
          \<and> resp_word_count resp = int (count_tokens (blog_content result))
          \<and> content resp = final_content result
          \<and> (if ''translation_agent'' \<in> set tr
              then translated_content result = Some (content resp)
              else content resp = blog_content result)"
    using run resp bc wc by (auto simp add: invoke_create_workflow length_split_ws)
next
  let ?g = "generate_blog (scripted_env replies_es) request_es []"
  obtain resp where resp: "fst ?g = Inr resp" and
    f: "was_translated resp" "resp_word_count resp = 5"
       "content resp = ''El teletrabajo cambia oficinas.''"
    using generate_blog_example_es by simp
  have g: "?g = (Inr resp, snd ?g)" using resp by (simp add: prod_eq_iff)
  have "count_tokens ''El teletrabajo cambia oficinas.'' = 4"
    by (simp add: count_tokens_def isspace_def)
  with f have "resp_word_count resp \<noteq> int (count_tokens (content resp))" by simp
  with g f show "\<exists>env request resp log'.
          generate_blog env request [] = (Inr resp, log')
          \<and> was_translated resp
          \<and> resp_word_count resp \<noteq> int (count_tokens (content resp))"
    by blast
qed

theorem word_count_counts_blog_content_witness:
  "fst (invoke_graph create_workflow (scripted_env replies_es) (initial_state request_es) []) =
     Inr (final_state_es, [''title_agent'', ''content_agent'', ''translation_agent''])
   \<and> word_count final_state_es = int (count_tokens (blog_content final_state_es))
   \<and> map_sum id resp_word_count (fst (generate_blog (scripted_env replies_es) request_es [])) =
       Inr (int (count_tokens (blog_content final_state_es)))
   \<and> map_sum id content (fst (generate_blog (scripted_env replies_es) request_es [])) =
       Inr (final_content final_state_es)"
proof -
  let ?es = "invoke_graph create_workflow (scripted_env replies_es) (initial_state request_es) []"
  let ?g = "generate_blog (scripted_env replies_es) request_es []"
  have a: "fst ?es = Inr (final_state_es, [''title_agent'', ''content_agent'',
                     ''translation_agent''])"
    using run_example_es by (simp add: invoke_create_workflow)
  then have es: "?es = (Inr (final_state_es, [''title_agent'', ''content_agent'',
                     ''translation_agent'']), snd ?es)"
    by (simp add: prod_eq_iff)
  obtain resp where resp: "fst ?g = Inr resp"
    using generate_blog_example_es by simp
  then have g: "?g = (Inr resp, snd ?g)" by (simp add: prod_eq_iff)
  note inst1 = word_count_counts_blog_content [where env = "scripted_env replies_es"
      and st = "initial_state request_es" and log = "[]" and st' = final_state_es
      and tr = "[''title_agent'', ''content_agent'', ''translation_agent'']"
      and log' = "snd ?es"]
  note inst2 = word_count_counts_blog_content [where env = "scripted_env replies_es"
      and request = request_es and log = "[]" and resp = resp and log'' = "snd ?g"]
  from inst1 es have b: "word_count final_state_es = int (count_tokens (blog_content final_state_es))"
    by blast
  from inst2 g obtain result tr where
    r: "?es = (Inr (result, tr), snd ?g)" and
    w: "resp_word_count resp = int (count_tokens (blog_content result))" and
    c: "content resp = final_content result"
    by blast
  from r a have "result = final_state_es" by simp
  with w c resp have
    "map_sum id resp_word_count (fst ?g) = Inr (int (count_tokens (blog_content final_state_es)))"
    "map_sum id content (fst ?g) = Inr (final_content final_state_es)"
    by simp_all
  with a b show ?thesis by simp
qed

text \<open>
  C9, as amended: in the response of every successful generation request,
  \<open>was_translated\<close> is true exactly when \<open>translated_content\<close> is present and non-empty in
  the final workflow state.
\<close>

theorem was_translated_iff_translation_nonempty:
  assumes "generate_blog env request log = (Inr resp, log')"
  shows "\<exists>result tr.
           invoke_graph create_workflow env (initial_state request) log
             = (Inr (result, tr), log')
           \<and> was_translated resp = (\<exists>t. translated_content result = Some t \<and> t \<noteq> [])"
proof -
  from generate_blog_Inr [OF assms] obtain result tr where
    run: "run_contract env (initial_state request) log = (Inr (result, tr), log')" and
    w: "was_translated resp = truthy (translated_content result)"
    by auto
  have "truthy (translated_content result) = (\<exists>t. translated_content result = Some t \<and> t \<noteq> [])"
    by (cases "translated_content result") simp_all
  with run w show ?thesis
    by (simp add: invoke_create_workflow)
qed

theorem was_translated_iff_translation_nonempty_witness:
  "map_sum id was_translated (fst (generate_blog (scripted_env replies_es) request_es [])) = Inr True
   \<and> fst (invoke_graph create_workflow (scripted_env replies_es) (initial_state request_es) []) =
       Inr (final_state_es, [''title_agent'', ''content_agent'', ''translation_agent''])
   \<and> (\<exists>t. translated_content final_state_es = Some t \<and> t \<noteq> [])"
proof -
  let ?es = "invoke_graph create_workflow (scripted_env replies_es) (initial_state request_es) []"
  let ?g = "generate_blog (scripted_env replies_es) request_es []"
  have a: "fst ?es = Inr (final_state_es, [''title_agent'', ''content_agent'',
                     ''translation_agent''])"
    using run_example_es by (simp add: invoke_create_workflow)
  obtain resp where resp: "fst ?g = Inr resp" and wt: "was_translated resp"
    using generate_blog_example_es by simp
  then have g: "?g = (Inr resp, snd ?g)" by (simp add: prod_eq_iff)
  from was_translated_iff_translation_nonempty [OF g] obtain result tr where
    r: "?es = (Inr (result, tr), snd ?g)" and
    w: "was_translated resp = (\<exists>t. translated_content result = Some t \<and> t \<noteq> [])"
    by blast
  from r a have "result = final_state_es" by simp
  with w wt have "\<exists>t. translated_content final_state_es = Some t \<and> t \<noteq> []" by simp
  with a resp wt show ?thesis by simp
qed

text \<open>
  C9 as stated fails: when the model's reply to the translation call is blank, the run
  ends with \<open>translated_content\<close> present (the empty text, also the \<open>final_content\<close>),
  and the response says \<open>was_translated = False\<close>.
\<close>

theorem was_translated_counterexample:
  "fst (invoke_graph create_workflow (scripted_env replies_blank_translation)
          (initial_state request_es) []) =
     Inr (final_state_blank, [''title_agent'', ''content_agent'', ''translation_agent''])
   \<and> translated_content final_state_blank = Some []
   \<and> fst (generate_blog (scripted_env replies_blank_translation) request_es []) =
       Inr \<lparr>title = ''7 Secrets of Remote Workers'',
            content = [],
            resp_word_count = 5,
            was_translated = False,
            resp_target_language = Some ''Spanish'',
            resp_brainstormed_titles =
              [''How to Master Remote Work'', ''7 Secrets of Remote Workers'']\<rparr>"
  using run_example_blank generate_blog_example_blank
  by (simp add: invoke_create_workflow final_state_blank_def)

end
